theory Spec2Isabelle
  imports Complex_Main
begin

section \<open>JavaScript values and strings\<close>

text \<open>
  A string is a list of characters, one per code unit. A JSON value is what
  \<^verbatim>\<open>JSON.parse\<close> returns; \<^verbatim>\<open>undefined\<close> is the value \<open>None\<close> of an option.
  Numbers stay abstract (the type \<open>'n\<close>): the program only tests them for truth and
  appends them to text, and both are functions of the platform.
\<close>

datatype 'n json =
    JNull
  | JBool bool
  | JNumber 'n
  | JString string
  | JArray "'n json list"
  | JObject "(string \<times> 'n json) list"

text \<open>
  The built-ins the program calls and that are no code of the repository:
  \<^verbatim>\<open>JSON.parse\<close> (\<open>None\<close> when it throws a SyntaxError), the truth value of a number
  and its conversion to a string.
\<close>

record 'n platform =
  JSON_parse :: "string \<Rightarrow> 'n json option"
  Number_truthy :: "'n \<Rightarrow> bool"
  Number_toString :: "'n \<Rightarrow> string"

definition LF :: char where
  "LF = CHR 0x0A"

definition CR :: char where
  "CR = CHR 0x0D"

text \<open>White space as \<^verbatim>\<open>String.prototype.trim\<close> and the regular expression class
  \<^verbatim>\<open>\s\<close> read it, among the code units below 256.\<close>

definition is_space :: "char \<Rightarrow> bool" where
  "is_space c \<longleftrightarrow>
     c = CHR 0x09 \<or> c = CHR 0x0A \<or> c = CHR 0x0B \<or> c = CHR 0x0C \<or> c = CHR 0x0D \<or>
     c = CHR 0x20 \<or> c = CHR 0xA0"

definition trim :: "string \<Rightarrow> string" where
  "trim s = rev (dropWhile is_space (rev (dropWhile is_space s)))"

definition startsWith :: "string \<Rightarrow> string \<Rightarrow> bool" where
  "startsWith s p \<longleftrightarrow> take (length p) s = p"

definition endsWith :: "string \<Rightarrow> string \<Rightarrow> bool" where
  "endsWith s p \<longleftrightarrow> length p \<le> length s \<and> drop (length s - length p) s = p"

fun indexOf :: "string \<Rightarrow> char \<Rightarrow> nat option" where
  "indexOf [] c = None"
| "indexOf (x # xs) c = (if x = c then Some 0 else map_option Suc (indexOf xs c))"

text \<open>Truth of a value (\<^verbatim>\<open>if (content)\<close>, \<^verbatim>\<open>x || ""\<close>, \<^verbatim>\<open>!question\<close>).\<close>

fun truthy :: "'n platform \<Rightarrow> 'n json \<Rightarrow> bool" where
  "truthy P JNull = False"
| "truthy P (JBool b) = b"
| "truthy P (JNumber n) = Number_truthy P n"
| "truthy P (JString s) = (s \<noteq> [])"
| "truthy P (JArray xs) = True"
| "truthy P (JObject kvs) = True"

fun join :: "string \<Rightarrow> string list \<Rightarrow> string" where
  "join sep [] = []"
| "join sep [x] = x"
| "join sep (x # y # ys) = x @ sep @ join sep (y # ys)"

text \<open>
  Conversion to a string, as \<^verbatim>\<open>fullResponse += content\<close> performs it; \<open>None\<close> when
  it throws a TypeError. An array joins its elements with a comma, \<^verbatim>\<open>null\<close>
  elements as the empty string. An object is converted by the \<^verbatim>\<open>toString\<close> it
  inherits, unless it has a key \<^verbatim>\<open>toString\<close> of its own: the value of that key is
  no function, the inherited \<^verbatim>\<open>valueOf\<close> returns the object itself, and the
  conversion throws. A key \<^verbatim>\<open>valueOf\<close> of its own is passed over and changes
  nothing.
\<close>

fun toString :: "'n platform \<Rightarrow> 'n json \<Rightarrow> string option" where
  "toString P JNull = Some ''null''"
| "toString P (JBool b) = Some (if b then ''true'' else ''false'')"
| "toString P (JNumber n) = Some (Number_toString P n)"
| "toString P (JString s) = Some s"
| "toString P (JArray xs) =
     map_option (join '','')
       (those (map (\<lambda>x. case x of JNull \<Rightarrow> Some [] | _ \<Rightarrow> toString P x) xs))"
| "toString P (JObject kvs) =
     (if map_of (rev kvs) ''toString'' = None then Some ''[object Object]'' else None)"

text \<open>
  Reading a property of a value that is neither \<^verbatim>\<open>null\<close> nor \<^verbatim>\<open>undefined\<close>. None
  of the names the program reads (\<^verbatim>\<open>choices\<close>, \<^verbatim>\<open>delta\<close>, \<^verbatim>\<open>content\<close>, \<^verbatim>\<open>summary\<close>,
  \<^verbatim>\<open>important_topics\<close>, \<^verbatim>\<open>question\<close>, \<^verbatim>\<open>userId\<close>) is a built-in property of a
  string, an array, a number or a boolean, so only an object has them; a later
  duplicate of a key wins, as in \<^verbatim>\<open>JSON.parse\<close>. The index \<^verbatim>\<open>[0]\<close> reads the first
  element of an array, the first code unit of a string, the key \<^verbatim>\<open>"0"\<close> of an
  object.
\<close>

fun member :: "'n json \<Rightarrow> string \<Rightarrow> 'n json option" where
  "member (JObject kvs) k = map_of (rev kvs) k"
| "member v k = None"

fun item0 :: "'n json \<Rightarrow> 'n json option" where
  "item0 (JArray xs) = (case xs of [] \<Rightarrow> None | x # rest \<Rightarrow> Some x)"
| "item0 (JString s) = (case s of [] \<Rightarrow> None | c # rest \<Rightarrow> Some (JString [c]))"
| "item0 (JObject kvs) = map_of (rev kvs) ''0''"
| "item0 v = None"

text \<open>Optional chaining \<^verbatim>\<open>base?.p\<close>: \<^verbatim>\<open>undefined\<close> when the base is \<^verbatim>\<open>null\<close> or
  \<^verbatim>\<open>undefined\<close>.\<close>

fun chain :: "'n json option \<Rightarrow> ('n json \<Rightarrow> 'n json option) \<Rightarrow> 'n json option" where
  "chain None get = None"
| "chain (Some JNull) get = None"
| "chain (Some v) get = get v"

text \<open>The outcome of a \<^verbatim>\<open>try\<close> block: it threw, or it ran to its end.\<close>

datatype 'a outcome = Thrown | Value 'a

text \<open>
  The \<^verbatim>\<open>try\<close> block of the decoder up to the test of \<^verbatim>\<open>content\<close>:
  \<^verbatim>\<open>JSON.parse(jsonStr)\<close> throws on malformed text, and \<^verbatim>\<open>parsed.choices\<close> throws a
  TypeError when the text is the JSON \<^verbatim>\<open>null\<close>.
\<close>

definition delta_content :: "'n platform \<Rightarrow> string \<Rightarrow> 'n json option outcome" where
  "delta_content P jsonStr =
     (case JSON_parse P jsonStr of
        None \<Rightarrow> Thrown
      | Some JNull \<Rightarrow> Thrown
      | Some parsed \<Rightarrow>
          Value (chain (chain (chain (member parsed ''choices'') item0)
                   (\<lambda>e. member e ''delta'')) (\<lambda>d. member d ''content'')))"

section \<open>The page and its transcript\<close>

datatype role = User | Assistant

record message =
  ident :: string
  role :: role
  content :: string
  timestamp :: nat

text \<open>
  What the browser supplies and the program cannot compute: the identifiers of
  \<^verbatim>\<open>crypto.randomUUID()\<close>, the clock of \<^verbatim>\<open>new Date()\<close> and the values of
  \<^verbatim>\<open>Math.random()\<close> (binary64 numbers, as the reals they stand for), each indexed
  by the number of earlier draws.
\<close>

record browser =
  randomUUID :: "nat \<Rightarrow> string"
  now :: "nat \<Rightarrow> nat"
  random :: "nat \<Rightarrow> real"

text \<open>The rows the page inserts: into \<^verbatim>\<open>important_topics\<close> (user_id, subject,
  topic, probability) and into \<^verbatim>\<open>ai_answers\<close> (user_id, question, answer, summary,
  subject).\<close>

datatype 'n row =
    Important_topic string string "'n json" int
  | Ai_answer string string string "'n json" string

text \<open>The JSON body the page posts: \<^verbatim>\<open>{question, userId: user?.id}\<close>.\<close>

record chat_request =
  body_question :: string
  body_userId :: "string option"

text \<open>A notification: its title and its description.\<close>

datatype toast = Toast string string

text \<open>
  The state of the page: the React state (\<open>messages\<close>, \<open>input\<close>, \<open>isLoading\<close>),
  the number of messages created so far (the index of the next identifier and
  clock reading), and the effects on the world: requests sent to the relay, rows
  inserted, notifications shown.
\<close>

record 'n page =
  messages :: "message list"
  input :: string
  isLoading :: bool
  created :: nat
  requests :: "chat_request list"
  inserted :: "'n row list"
  toasts :: "toast list"

text \<open>The updater the decoder passes to \<^verbatim>\<open>setMessages\<close> for a delta: the running
  text replaces the content of the last message when that is an assistant
  message other than the welcome, and is appended as a new message otherwise.\<close>

definition show_response :: "browser \<Rightarrow> string \<Rightarrow> 'n page \<Rightarrow> 'n page" where
  "show_response B fullResponse pg =
     (let prev = messages pg in
      if prev \<noteq> [] \<and> role (last prev) = Assistant \<and> ident (last prev) \<noteq> ''welcome''
      then pg\<lparr>messages := butlast prev @ [(last prev)\<lparr>content := fullResponse\<rparr>]\<rparr>
      else pg\<lparr>messages := prev @
                 [\<lparr>ident = randomUUID B (created pg), role = Assistant,
                   content = fullResponse, timestamp = now B (created pg)\<rparr>],
               created := Suc (created pg)\<rparr>)"

section \<open>The stream decoder\<close>

record 'n decoder =
  textBuffer :: string
  fullResponse :: string
  view :: "'n page"

text \<open>
  The inner loop of \<^verbatim>\<open>streamChat\<close>: while the buffer holds a line feed, take the
  line before it. A comment, a blank line and a line without the data prefix are
  skipped; \<^verbatim>\<open>[DONE]\<close> leaves the loop; a truthy content is appended to the answer
  and shown. Whatever the \<^verbatim>\<open>try\<close> block throws (the SyntaxError of \<^verbatim>\<open>JSON.parse\<close>,
  the TypeError of reading \<^verbatim>\<open>null\<close>, the TypeError of converting the content to a
  string) is caught: the line is put back in front of the buffer and the loop is
  left.
\<close>

function streamChat_lines :: "'n platform \<Rightarrow> browser \<Rightarrow> 'n decoder \<Rightarrow> 'n decoder" where
  "streamChat_lines P B d =
     (case indexOf (textBuffer d) LF of
        None \<Rightarrow> d
      | Some newlineIndex \<Rightarrow>
          (let line0 = take newlineIndex (textBuffer d);
               d1 = d\<lparr>textBuffer := drop (newlineIndex + 1) (textBuffer d)\<rparr>;
               line = (if endsWith line0 [CR] then butlast line0 else line0)
           in if startsWith line '':'' \<or> trim line = [] then streamChat_lines P B d1
              else if \<not> startsWith line ''data: '' then streamChat_lines P B d1
              else (let jsonStr = trim (drop 6 line)
                    in if jsonStr = ''[DONE]'' then d1
                       else (case delta_content P jsonStr of
                               Thrown \<Rightarrow> d1\<lparr>textBuffer := line @ [LF] @ textBuffer d1\<rparr>
                             | Value None \<Rightarrow> streamChat_lines P B d1
                             | Value (Some c) \<Rightarrow>
                                 if truthy P c
                                 then (case toString P c of
                                         None \<Rightarrow>
                                           d1\<lparr>textBuffer := line @ [LF] @ textBuffer d1\<rparr>
                                       | Some t \<Rightarrow>
                                           streamChat_lines P B
                                             (d1\<lparr>fullResponse := fullResponse d1 @ t,
                                                 view := show_response B
                                                   (fullResponse d1 @ t) (view d1)\<rparr>))
                                 else streamChat_lines P B d1))))"
  by pat_completeness auto
termination
proof -
  have less: "i < length s" if "indexOf s c = Some i" for s c i
    using that by (induction s arbitrary: i) (auto split: if_splits)
  show ?thesis
    by (relation "measure (\<lambda>(P, B, d). length (textBuffer d))")
       (auto dest: less)
qed

declare streamChat_lines.simps [simp del]

text \<open>The outer loop: each chunk the reader delivers is decoded to text, appended
  to the buffer, and the inner loop runs; the end of the stream leaves the loop.\<close>

fun streamChat_read :: "'n platform \<Rightarrow> browser \<Rightarrow> string list \<Rightarrow> 'n decoder \<Rightarrow> 'n decoder" where
  "streamChat_read P B [] d = d"
| "streamChat_read P B (chunk # rest) d =
     streamChat_read P B rest (streamChat_lines P B (d\<lparr>textBuffer := textBuffer d @ chunk\<rparr>))"

section \<open>Sending a question\<close>

text \<open>
  A response as the program reads it: the status, the headers, and the body as the
  chunks its reader delivers (\<open>None\<close> for a null body). A body, once its response
  has arrived, is delivered whole. \<^verbatim>\<open>fetch\<close> itself may reject: \<open>Inl\<close> carries the
  message of the error.
\<close>

record response =
  status :: nat
  headers :: "(string \<times> string) list"
  body :: "string list option"

definition ok :: "response \<Rightarrow> bool" where
  "ok r \<longleftrightarrow> 200 \<le> status r \<and> status r \<le> 299"

type_synonym network = "chat_request \<Rightarrow> string + response"

text \<open>
  \<^verbatim>\<open>streamChat\<close>: post the question, turn the statuses 429 and 402 and any other
  failure into errors, and decode the body. The result is the error thrown
  (\<open>Inl\<close>, its message) or the assembled answer, with the page as the updaters
  left it.
\<close>

definition streamChat ::
  "'n platform \<Rightarrow> browser \<Rightarrow> network \<Rightarrow> string option \<Rightarrow> string \<Rightarrow> 'n page
     \<Rightarrow> (string + string) \<times> 'n page" where
  "streamChat P B net user question pg =
     (let req = \<lparr>body_question = question, body_userId = user\<rparr>;
          pg1 = pg\<lparr>requests := requests pg @ [req]\<rparr>
      in case net req of
           Inl msg \<Rightarrow> (Inl msg, pg1)
         | Inr resp \<Rightarrow>
             if status resp = 429
             then (Inl ''Rate limit exceeded. Please try again in a moment.'', pg1)
             else if status resp = 402
             then (Inl ''AI credits exhausted. Please contact support.'', pg1)
             else (case body resp of
                     None \<Rightarrow> (Inl ''Failed to get AI response'', pg1)
                   | Some chunks \<Rightarrow>
                       if \<not> ok resp then (Inl ''Failed to get AI response'', pg1)
                       else (let d = streamChat_read P B chunks
                                       \<lparr>textBuffer = [], fullResponse = [], view = pg1\<rparr>
                             in (Inr (fullResponse d), view d))))"

text \<open>
  The regular expression \<^verbatim>\<open>/```json\s*([\s\S]*?)\s*```/\<close>. After the opening fence
  and the white space that follows it, the lazy group grows one character at a
  time until white space and a closing fence follow; \<open>fenced_group\<close> is the group
  then. The first white space run is greedy, and giving some of it back never
  helps, because the group matches every character. \<open>match_json\<close> tries each
  start position from the left and returns the group of the first match.
\<close>

fun fenced_group :: "string \<Rightarrow> string option" where
  "fenced_group [] = None"
| "fenced_group (c # rest) =
     (if startsWith (dropWhile is_space (c # rest)) ''```'' then Some []
      else map_option ((#) c) (fenced_group rest))"

definition match_at :: "string \<Rightarrow> string option" where
  "match_at s =
     (if startsWith s ''```json'' then fenced_group (dropWhile is_space (drop 7 s))
      else None)"

fun match_json :: "string \<Rightarrow> string option" where
  "match_json [] = None"
| "match_json (c # rest) =
     (case match_at (c # rest) of
        Some g \<Rightarrow> Some g
      | None \<Rightarrow> match_json rest)"

text \<open>
  Numbers are IEEE binary64 values, here the reals they stand for. The result of
  an operation is the exact result rounded to the nearest value that can be
  represented, a tie going to the even significand. \<open>round_even\<close> rounds to the
  nearest integer in that way. \<open>binary64_from e x\<close> looks for the exponent of
  \<open>x\<close> from \<open>e\<close> downwards, no lower than -1022, and rounds \<open>x\<close> to 53
  significant bits there; \<open>binary64 x\<close> is the value that represents \<open>x\<close>, for
  \<open>x\<close> from 0 up to the overflow threshold.
\<close>

definition round_even :: "real \<Rightarrow> int" where
  "round_even y =
     (if y - of_int \<lfloor>y\<rfloor> < 1 / 2 then \<lfloor>y\<rfloor>
      else if 1 / 2 < y - of_int \<lfloor>y\<rfloor> then \<lfloor>y\<rfloor> + 1
      else if even \<lfloor>y\<rfloor> then \<lfloor>y\<rfloor> else \<lfloor>y\<rfloor> + 1)"

function binary64_from :: "int \<Rightarrow> real \<Rightarrow> real" where
  "binary64_from e x =
     (if 2 powi e \<le> x \<or> e \<le> - 1022
      then of_int (round_even (x / 2 powi (e - 52))) * 2 powi (e - 52)
      else binary64_from (e - 1) x)"
  by pat_completeness auto
termination
  by (relation "measure (\<lambda>(e, x). nat (e + 1022))") auto

declare binary64_from.simps [simp del]

definition binary64 :: "real \<Rightarrow> real" where
  "binary64 x = binary64_from 1023 x"

text \<open>The values \<^verbatim>\<open>Math.random()\<close> may return: the binary64 values from 0 up to,
  but not including, 1.\<close>

definition random_value :: "real \<Rightarrow> bool" where
  "random_value r \<longleftrightarrow> 0 \<le> r \<and> r < 1 \<and> binary64 r = r"

text \<open>\<^verbatim>\<open>Math.floor(Math.random() * 30) + 70\<close> for the value \<open>r\<close> drawn: the product
  is rounded, the floor and the sum of two small integers are exact.\<close>

definition likelihood :: "real \<Rightarrow> int" where
  "likelihood r = \<lfloor>binary64 (r * 30)\<rfloor> + 70"

text \<open>The loop over the topics: one row each, with the likelihood of the next
  value drawn; \<open>k\<close> counts the draws made.\<close>

fun insert_topics :: "browser \<Rightarrow> string \<Rightarrow> nat \<Rightarrow> 'n json list \<Rightarrow> 'n page \<Rightarrow> 'n page" where
  "insert_topics B uid k [] pg = pg"
| "insert_topics B uid k (topic # rest) pg =
     insert_topics B uid (Suc k) rest
       (pg\<lparr>inserted := inserted pg @
          [Important_topic uid ''General'' topic (likelihood (random B k))]\<rparr>)"

text \<open>
  The body of \<^verbatim>\<open>if (user && response)\<close>. The inner \<^verbatim>\<open>try\<close> catches the SyntaxError
  of \<^verbatim>\<open>JSON.parse\<close> and the TypeError of \<^verbatim>\<open>parsed.summary\<close> on \<^verbatim>\<open>null\<close>; both leave
  the summary empty. Then the answer is inserted.
\<close>

definition save_answer ::
  "'n platform \<Rightarrow> browser \<Rightarrow> string \<Rightarrow> string \<Rightarrow> string \<Rightarrow> 'n page \<Rightarrow> 'n page" where
  "save_answer P B uid messageText response pg =
     (let (summary, pg1) =
            (case match_json response of
               None \<Rightarrow> (JString [], pg)
             | Some block \<Rightarrow>
                 (case JSON_parse P block of
                    None \<Rightarrow> (JString [], pg)
                  | Some JNull \<Rightarrow> (JString [], pg)
                  | Some parsed \<Rightarrow>
                      (case member parsed ''summary'' of
                         None \<Rightarrow> JString []
                       | Some v \<Rightarrow> if truthy P v then v else JString [],
                       case member parsed ''important_topics'' of
                         Some (JArray topics) \<Rightarrow> insert_topics B uid 0 topics pg
                       | _ \<Rightarrow> pg)))
      in pg1\<lparr>inserted := inserted pg1 @
               [Ai_answer uid messageText response summary ''General'']\<rparr>)"

text \<open>The text to send, \<^verbatim>\<open>text || input.trim()\<close>.\<close>

definition messageText_of :: "string option \<Rightarrow> 'n page \<Rightarrow> string" where
  "messageText_of text pg =
     (case text of
        None \<Rightarrow> trim (input pg)
      | Some t \<Rightarrow> if t \<noteq> [] then t else trim (input pg))"

text \<open>The page once the user message is appended, the input box cleared and the
  loading flag set.\<close>

definition add_user_message :: "browser \<Rightarrow> string \<Rightarrow> 'n page \<Rightarrow> 'n page" where
  "add_user_message B messageText pg =
     (let userMessage =
            \<lparr>ident = randomUUID B (created pg), role = User,
             content = messageText, timestamp = now B (created pg)\<rparr>
      in pg\<lparr>messages := messages pg @ [userMessage],
            created := Suc (created pg),
            input := [],
            isLoading := True\<rparr>)"

text \<open>
  \<^verbatim>\<open>handleSend\<close>. \<open>user\<close> is the identifier of the signed-in user, \<open>text\<close> the
  optional argument. The \<^verbatim>\<open>catch\<close> shows the error and appends an apology; the
  \<^verbatim>\<open>finally\<close> clears the loading flag.
\<close>

definition handleSend ::
  "'n platform \<Rightarrow> browser \<Rightarrow> network \<Rightarrow> string option \<Rightarrow> string option \<Rightarrow> 'n page
     \<Rightarrow> 'n page" where
  "handleSend P B net user text pg =
     (let messageText = messageText_of text pg
      in if messageText = [] then pg
         else
           (case streamChat P B net user messageText (add_user_message B messageText pg) of
              (Inl msg, pg2) \<Rightarrow>
                pg2\<lparr>toasts := toasts pg2 @ [Toast ''Error'' msg],
                    messages := messages pg2 @
                      [\<lparr>ident = randomUUID B (created pg2), role = Assistant,
                        content = ''I'' @ [CHR 0x27] @
                          ''m sorry, I encountered an error. Please try again.'',
                        timestamp = now B (created pg2)\<rparr>],
                    created := Suc (created pg2),
                    isLoading := False\<rparr>
            | (Inr response, pg2) \<Rightarrow>
                (case user of
                   None \<Rightarrow> pg2\<lparr>isLoading := False\<rparr>
                 | Some uid \<Rightarrow>
                     if response = [] then pg2\<lparr>isLoading := False\<rparr>
                     else (save_answer P B uid messageText response pg2)
                            \<lparr>isLoading := False\<rparr>)))"

section \<open>The relay\<close>

definition corsHeaders :: "(string \<times> string) list" where
  "corsHeaders =
     [(''Access-Control-Allow-Origin'', ''*''),
      (''Access-Control-Allow-Headers'',
       ''authorization, x-client-info, apikey, content-type'')]"

text \<open>\<^verbatim>\<open>JSON.stringify({ error: msg })\<close>: the message between quotes, with the quote,
  the backslash and the control characters escaped.\<close>

definition hex_digit :: "nat \<Rightarrow> char" where
  "hex_digit n = (if n < 10 then char_of (48 + n) else char_of (87 + n))"

definition escape :: "char \<Rightarrow> string" where
  "escape c =
     (if c = CHR 0x22 then [CHR 0x5C, CHR 0x22]
      else if c = CHR 0x5C then [CHR 0x5C, CHR 0x5C]
      else if c = CHR 0x08 then [CHR 0x5C, CHR ''b'']
      else if c = CHR 0x0C then [CHR 0x5C, CHR ''f'']
      else if c = CHR 0x0A then [CHR 0x5C, CHR ''n'']
      else if c = CHR 0x0D then [CHR 0x5C, CHR ''r'']
      else if c = CHR 0x09 then [CHR 0x5C, CHR ''t'']
      else if (of_char c :: nat) < 32
      then [CHR 0x5C, CHR ''u'', CHR ''0'', CHR ''0'',
            hex_digit (of_char c div 16), hex_digit (of_char c mod 16)]
      else [c])"

definition stringify_error :: "string \<Rightarrow> string" where
  "stringify_error msg =
     [CHR ''{'', CHR 0x22] @ ''error'' @ [CHR 0x22, CHR '':'', CHR 0x22] @
     concat (map escape msg) @ [CHR 0x22, CHR ''}'']"

definition error_response :: "nat \<Rightarrow> string \<Rightarrow> response" where
  "error_response st msg =
     \<lparr>status = st,
      headers = corsHeaders @ [(''Content-Type'', ''application/json'')],
      body = Some [stringify_error msg]\<rparr>"

text \<open>A number in decimal, as a template literal renders a length and
  \<^verbatim>\<open>console.error\<close> a status.\<close>

function show_nat :: "nat \<Rightarrow> string" where
  "show_nat n =
     (if n < 10 then [char_of (48 + n)]
      else show_nat (n div 10) @ [char_of (48 + n mod 10)])"
  by pat_completeness auto
termination
  by (relation "measure id") auto

declare show_nat.simps [simp del]

text \<open>The rows the relay selects: \<^verbatim>\<open>title, file_url\<close> of \<^verbatim>\<open>syllabus\<close> and
  \<^verbatim>\<open>year, subject\<close> of \<^verbatim>\<open>past_papers\<close>, all text columns that are not null.\<close>

record syllabus_row =
  title :: string
  file_url :: string

record paper_row =
  year :: string
  subject :: string

text \<open>The client \<^verbatim>\<open>createClient\<close> returns, as the two queries the relay runs with
  it: the rows whose \<^verbatim>\<open>user_id\<close> equals the identifier, \<open>None\<close> for the \<^verbatim>\<open>data: null\<close>
  of a failed query.\<close>

record 'n supabase =
  syllabus :: "'n json \<Rightarrow> syllabus_row list option"
  past_papers :: "'n json \<Rightarrow> paper_row list option"

text \<open>The request to the model provider.\<close>

record 'n upstream_request =
  endpoint :: string
  authorization :: string
  model :: string
  system_content :: string
  user_content :: "'n json"
  stream :: bool

text \<open>
  What the relay runs on: the process environment of \<^verbatim>\<open>Deno.env.get\<close>,
  \<^verbatim>\<open>createClient\<close> (which may throw), \<^verbatim>\<open>fetch\<close> (which may reject), and the message
  of the TypeError that destructuring \<^verbatim>\<open>null\<close> throws.
\<close>

record 'n deno =
  env :: "string \<Rightarrow> string option"
  createClient :: "string option \<Rightarrow> string option \<Rightarrow> string + 'n supabase"
  fetch :: "'n upstream_request \<Rightarrow> string + response"
  destructure_null :: string

text \<open>A request to the relay: its method and the outcome of \<^verbatim>\<open>req.json()\<close>, which
  rejects (\<open>Inl\<close>, the message) when the body is no JSON.\<close>

record 'n request =
  req_method :: string
  json_body :: "string + 'n json"

text \<open>What the relay does besides answering: the upstream calls it makes and
  the lines it writes with \<^verbatim>\<open>console.error\<close>, one list of arguments each.\<close>

record 'n trace =
  fetched :: "'n upstream_request list"
  logged :: "string list list"

text \<open>The values of a \<^verbatim>\<open>Set\<close> in insertion order: the first of each.\<close>

fun set_values :: "string list \<Rightarrow> string list" where
  "set_values [] = []"
| "set_values (x # xs) = x # set_values (filter (\<lambda>y. y \<noteq> x) xs)"

definition systemPrompt :: "string \<Rightarrow> string \<Rightarrow> string" where
  "systemPrompt syllabusContext papersContext =
     join [LF]
       [''You are EngiGenius AI, an expert study assistant for engineering students. Your role is to:'',
        ''1. Analyze questions and provide 10/10 exam-ready, easy-to-memorize answers'',
        ''2. Identify important topics and predict likely exam questions'',
        ''3. Provide clear explanations with examples'',
        ''4. Generate summaries and quick revision notes'',
        [],
        ''Context about user'' @ [CHR 0x27] @ ''s materials:'',
        (if syllabusContext \<noteq> [] then syllabusContext else ''No syllabus uploaded yet''),
        (if papersContext \<noteq> [] then papersContext else ''No past papers uploaded yet''),
        [],
        ''IMPORTANT: '',
        ''- Format your answers clearly with headings, bullet points, and numbered lists'',
        ''- Include key formulas where relevant'',
        ''- Provide exam tips and memory techniques'',
        ''- Keep answers comprehensive but easy to understand'',
        ''- Always return structured, well-formatted responses'',
        [],
        ''At the end of your response, provide a JSON block with important topics extracted:'',
        ''```json'',
        ''{'',
        ''  \"important_topics\": [\"topic1\", \"topic2\", \"topic3\"],'',
        ''  \"summary\": \"Brief 2-3 sentence summary\"'',
        ''}'',
        ''```'']"

text \<open>The two context strings, empty unless the identifier is given and the
  query returns rows.\<close>

definition syllabusContext :: "'n platform \<Rightarrow> 'n supabase \<Rightarrow> 'n json option \<Rightarrow> string" where
  "syllabusContext P supabase userId =
     (case userId of
        None \<Rightarrow> []
      | Some u \<Rightarrow>
          if \<not> truthy P u then []
          else (case syllabus supabase u of
                  None \<Rightarrow> []
                | Some rows \<Rightarrow>
                    if rows = [] then []
                    else ''User has uploaded '' @ show_nat (length rows) @
                      '' syllabus file(s): '' @ join '', '' (map title rows)))"

definition papersContext :: "'n platform \<Rightarrow> 'n supabase \<Rightarrow> 'n json option \<Rightarrow> string" where
  "papersContext P supabase userId =
     (case userId of
        None \<Rightarrow> []
      | Some u \<Rightarrow>
          if \<not> truthy P u then []
          else (case past_papers supabase u of
                  None \<Rightarrow> []
                | Some papers \<Rightarrow>
                    if papers = [] then []
                    else ''User has uploaded '' @ show_nat (length papers) @
                      '' past paper(s) from years: '' @
                      join '', '' (set_values (map year papers))))"

text \<open>The call to the model provider: the system prompt with the two context
  strings, then the question as it came.\<close>

definition completion_call ::
  "'n platform \<Rightarrow> 'n supabase \<Rightarrow> string \<Rightarrow> 'n json \<Rightarrow> 'n json option \<Rightarrow> 'n upstream_request" where
  "completion_call P supabase LOVABLE_API_KEY q userId =
     \<lparr>endpoint = ''https://ai.gateway.lovable.dev/v1/chat/completions'',
      authorization = ''Bearer '' @ LOVABLE_API_KEY,
      model = ''google/gemini-2.5-flash'',
      system_content =
        systemPrompt (syllabusContext P supabase userId) (papersContext P supabase userId),
      user_content = q,
      stream = True\<rparr>"

text \<open>
  The \<^verbatim>\<open>try\<close> block of the handler. \<open>Inl\<close> is the message of what it threw, \<open>Inr\<close>
  the response it returned; the trace holds the effects up to that point.
\<close>

definition ask_ai ::
  "'n platform \<Rightarrow> 'n deno \<Rightarrow> 'n request \<Rightarrow> (string + response) \<times> 'n trace" where
  "ask_ai P D req =
     (case json_body req of
        Inl msg \<Rightarrow> (Inl msg, \<lparr>fetched = [], logged = []\<rparr>)
      | Inr JNull \<Rightarrow> (Inl (destructure_null D), \<lparr>fetched = [], logged = []\<rparr>)
      | Inr parsed \<Rightarrow>
          (let question = member parsed ''question'';
               userId = member parsed ''userId''
           in case question of
                None \<Rightarrow> (Inr (error_response 400 ''Question is required''),
                         \<lparr>fetched = [], logged = []\<rparr>)
              | Some q \<Rightarrow>
                  if \<not> truthy P q
                  then (Inr (error_response 400 ''Question is required''),
                        \<lparr>fetched = [], logged = []\<rparr>)
                  else
                    (case env D ''LOVABLE_API_KEY'' of
                       None \<Rightarrow> (Inl ''LOVABLE_API_KEY is not configured'',
                                \<lparr>fetched = [], logged = []\<rparr>)
                     | Some LOVABLE_API_KEY \<Rightarrow>
                         if LOVABLE_API_KEY = []
                         then (Inl ''LOVABLE_API_KEY is not configured'',
                               \<lparr>fetched = [], logged = []\<rparr>)
                         else
                           (case createClient D (env D ''SUPABASE_URL'')
                                   (env D ''SUPABASE_SERVICE_ROLE_KEY'') of
                              Inl msg \<Rightarrow> (Inl msg, \<lparr>fetched = [], logged = []\<rparr>)
                            | Inr supabase \<Rightarrow>
                                (let call = completion_call P supabase LOVABLE_API_KEY q userId
                                 in case fetch D call of
                                      Inl msg \<Rightarrow> (Inl msg, \<lparr>fetched = [call], logged = []\<rparr>)
                                    | Inr response \<Rightarrow>
                                        if \<not> ok response
                                        then
                                          if status response = 429
                                          then (Inr (error_response 429
                                                  ''Rate limit exceeded. Please try again later.''),
                                                \<lparr>fetched = [call], logged = []\<rparr>)
                                          else if status response = 402
                                          then (Inr (error_response 402
                                                  ''Payment required. Please add credits to continue.''),
                                                \<lparr>fetched = [call], logged = []\<rparr>)
                                          else
                                            (let errorText =
                                                   (case body response of
                                                      None \<Rightarrow> []
                                                    | Some chunks \<Rightarrow> concat chunks)
                                             in (Inr (error_response 500 ''AI service error''),
                                                 \<lparr>fetched = [call],
                                                  logged = [[''AI gateway error:'',
                                                    show_nat (status response), errorText]]\<rparr>))
                                        else
                                          (Inr \<lparr>status = 200,
                                                headers = corsHeaders @
                                                  [(''Content-Type'', ''text/event-stream'')],
                                                body = body response\<rparr>,
                                           \<lparr>fetched = [call], logged = []\<rparr>))))))"

text \<open>
  The handler passed to \<^verbatim>\<open>serve\<close>: the preflight request is answered at once; what
  the \<^verbatim>\<open>try\<close> block throws is logged and reported with the status 500.
\<close>

definition serve :: "'n platform \<Rightarrow> 'n deno \<Rightarrow> 'n request \<Rightarrow> response \<times> 'n trace" where
  "serve P D req =
     (if req_method req = ''OPTIONS''
      then (\<lparr>status = 200, headers = corsHeaders, body = None\<rparr>,
            \<lparr>fetched = [], logged = []\<rparr>)
      else (case ask_ai P D req of
              (Inr resp, tr) \<Rightarrow> (resp, tr)
            | (Inl msg, tr) \<Rightarrow>
                (error_response 500 msg,
                 tr\<lparr>logged := logged tr @ [[''ask-ai error:'', msg]]\<rparr>)))"

section \<open>The stream as a sequence of events\<close>

text \<open>
  The specification reads the stream as lines, and each line as an event: a text
  delta, the terminator, or a line that is ignored. A data line whose payload
  makes the \<^verbatim>\<open>try\<close> block throw (it does not parse, it is \<^verbatim>\<open>null\<close>, or its
  content cannot be converted to a string) is malformed. These definitions
  follow the specification; the decoder above is compared with them.
\<close>

datatype event = Ignored | Terminator | Malformed | Delta string

definition without_CR :: "string \<Rightarrow> string" where
  "without_CR l = (if endsWith l [CR] then butlast l else l)"

definition event_of_line :: "'n platform \<Rightarrow> string \<Rightarrow> event" where
  "event_of_line P l =
     (let line = without_CR l
      in if startsWith line '':'' \<or> trim line = [] then Ignored
         else if \<not> startsWith line ''data: '' then Ignored
         else if trim (drop 6 line) = ''[DONE]'' then Terminator
         else (case delta_content P (trim (drop 6 line)) of
                 Thrown \<Rightarrow> Malformed
               | Value None \<Rightarrow> Ignored
               | Value (Some c) \<Rightarrow>
                   if truthy P c
                   then (case toString P c of None \<Rightarrow> Malformed | Some t \<Rightarrow> Delta t)
                   else Ignored))"

text \<open>The lines of a text that end in a line feed, in order; \<open>cur\<close> is the line
  read so far. What follows the last line feed is no line yet.\<close>

fun lines_from :: "string \<Rightarrow> string \<Rightarrow> string list" where
  "lines_from cur [] = []"
| "lines_from cur (c # cs) =
     (if c = LF then cur # lines_from [] cs else lines_from (cur @ [c]) cs)"

definition complete_lines :: "string \<Rightarrow> string list" where
  "complete_lines s = lines_from [] s"

definition events :: "'n platform \<Rightarrow> string \<Rightarrow> event list" where
  "events P s = map (event_of_line P) (complete_lines s)"










section \<open>A platform to run the program on\<close>

text \<open>
  A reading of \<^verbatim>\<open>JSON.parse\<close> after the JSON grammar, to run the program on sample
  texts. A number is kept as its literal. An escape \<^verbatim>\<open>\u\<close> is read when its code
  unit is below 256, the range of a character here. The first argument of the
  three mutually recursive functions bounds the depth of their calls; for a text
  that parses, its length is enough.
\<close>

definition json_space :: "char \<Rightarrow> bool" where
  "json_space c \<longleftrightarrow> c = CHR 0x20 \<or> c = CHR 0x09 \<or> c = CHR 0x0A \<or> c = CHR 0x0D"

definition is_digit :: "char \<Rightarrow> bool" where
  "is_digit c \<longleftrightarrow> 48 \<le> (of_char c :: nat) \<and> (of_char c :: nat) \<le> 57"

definition hex_value :: "char \<Rightarrow> nat option" where
  "hex_value c =
     (let n = (of_char c :: nat)
      in if 48 \<le> n \<and> n \<le> 57 then Some (n - 48)
         else if 97 \<le> n \<and> n \<le> 102 then Some (n - 87)
         else if 65 \<le> n \<and> n \<le> 70 then Some (n - 55)
         else None)"

definition unescape :: "char \<Rightarrow> char option" where
  "unescape e =
     (if e = CHR 0x22 \<or> e = CHR 0x5C \<or> e = CHR ''/'' then Some e
      else if e = CHR ''b'' then Some (CHR 0x08)
      else if e = CHR ''f'' then Some (CHR 0x0C)
      else if e = CHR ''n'' then Some (CHR 0x0A)
      else if e = CHR ''r'' then Some (CHR 0x0D)
      else if e = CHR ''t'' then Some (CHR 0x09)
      else None)"

text \<open>The characters of a string literal after its opening quote, and the text
  after its closing quote.\<close>

fun string_literal :: "string \<Rightarrow> (string \<times> string) option" where
  "string_literal [] = None"
| "string_literal (c # cs) =
     (if c = CHR 0x22 then Some ([], cs)
      else if c = CHR 0x5C then
        (case cs of
           [] \<Rightarrow> None
         | e # rest \<Rightarrow>
             if e = CHR ''u'' then
               (case rest of
                  h1 # h2 # h3 # h4 # rest' \<Rightarrow>
                    (case (hex_value h1, hex_value h2, hex_value h3, hex_value h4) of
                       (Some a, Some b, Some c', Some d) \<Rightarrow>
                         if a = 0 \<and> b = 0
                         then map_option (\<lambda>(t, r). (char_of (16 * c' + d) # t, r))
                                (string_literal rest')
                         else None
                     | _ \<Rightarrow> None)
                | _ \<Rightarrow> None)
             else
               (case unescape e of
                  None \<Rightarrow> None
                | Some x \<Rightarrow> map_option (\<lambda>(t, r). (x # t, r)) (string_literal rest)))
      else if (of_char c :: nat) < 32 then None
      else map_option (\<lambda>(t, r). (c # t, r)) (string_literal cs))"

text \<open>A run of digits that is not empty.\<close>

definition digits :: "string \<Rightarrow> (string \<times> string) option" where
  "digits s =
     (if takeWhile is_digit s = [] then None
      else Some (takeWhile is_digit s, dropWhile is_digit s))"

text \<open>A number literal: sign, integer part without a leading zero, fraction,
  exponent.\<close>

definition number_literal :: "string \<Rightarrow> (string \<times> string) option" where
  "number_literal s =
     (let (sign, s1) = (case s of c # r \<Rightarrow> if c = CHR ''-'' then ([c], r) else ([], s)
                                 | [] \<Rightarrow> ([], s))
      in case digits s1 of
           None \<Rightarrow> None
         | Some (whole, s2) \<Rightarrow>
             if hd whole = CHR ''0'' \<and> length whole > 1 then None
             else
               (let frac =
                      (case s2 of
                         c # r \<Rightarrow>
                           if c = CHR ''.''
                           then map_option (\<lambda>(ds, r'). (c # ds, r')) (digits r)
                           else Some ([], s2)
                       | [] \<Rightarrow> Some ([], s2))
                in case frac of
                     None \<Rightarrow> None
                   | Some (fraction, s3) \<Rightarrow>
                       (let expo =
                              (case s3 of
                                 c # r \<Rightarrow>
                                   if c = CHR ''e'' \<or> c = CHR ''E'' then
                                     (case r of
                                        g # r' \<Rightarrow>
                                          if g = CHR ''+'' \<or> g = CHR ''-''
                                          then map_option (\<lambda>(ds, t). (c # g # ds, t)) (digits r')
                                          else map_option (\<lambda>(ds, t). (c # ds, t)) (digits r)
                                      | [] \<Rightarrow> None)
                                   else Some ([], s3)
                               | [] \<Rightarrow> Some ([], s3))
                        in case expo of
                             None \<Rightarrow> None
                           | Some (exponent, s4) \<Rightarrow>
                               Some (sign @ whole @ fraction @ exponent, s4))))"

fun json_value :: "nat \<Rightarrow> string \<Rightarrow> (string json \<times> string) option"
  and json_elements :: "nat \<Rightarrow> string \<Rightarrow> (string json list \<times> string) option"
  and json_members :: "nat \<Rightarrow> string \<Rightarrow> ((string \<times> string json) list \<times> string) option"
where
  "json_value 0 s = None"
| "json_value (Suc n) s =
     (case dropWhile json_space s of
        [] \<Rightarrow> None
      | c # cs \<Rightarrow>
          if c = CHR ''{'' then
            (case dropWhile json_space cs of
               [] \<Rightarrow> None
             | x # r \<Rightarrow>
                 if x = CHR ''}'' then Some (JObject [], r)
                 else map_option (\<lambda>(kvs, t). (JObject kvs, t)) (json_members n cs))
          else if c = CHR ''['' then
            (case dropWhile json_space cs of
               [] \<Rightarrow> None
             | x # r \<Rightarrow>
                 if x = CHR '']'' then Some (JArray [], r)
                 else map_option (\<lambda>(vs, t). (JArray vs, t)) (json_elements n cs))
          else if c = CHR 0x22 then
            map_option (\<lambda>(t, r). (JString t, r)) (string_literal cs)
          else if startsWith (c # cs) ''true'' then Some (JBool True, drop 4 (c # cs))
          else if startsWith (c # cs) ''false'' then Some (JBool False, drop 5 (c # cs))
          else if startsWith (c # cs) ''null'' then Some (JNull, drop 4 (c # cs))
          else map_option (\<lambda>(lit, r). (JNumber lit, r)) (number_literal (c # cs)))"
| "json_elements 0 s = None"
| "json_elements (Suc n) s =
     (case json_value n s of
        None \<Rightarrow> None
      | Some (v, r) \<Rightarrow>
          (case dropWhile json_space r of
             [] \<Rightarrow> None
           | x # t \<Rightarrow>
               if x = CHR '','' then map_option (\<lambda>(vs, u). (v # vs, u)) (json_elements n t)
               else if x = CHR '']'' then Some ([v], t)
               else None))"
| "json_members 0 s = None"
| "json_members (Suc n) s =
     (case dropWhile json_space s of
        [] \<Rightarrow> None
      | q # cs \<Rightarrow>
          if q \<noteq> CHR 0x22 then None
          else
            (case string_literal cs of
               None \<Rightarrow> None
             | Some (k, r) \<Rightarrow>
                 (case dropWhile json_space r of
                    [] \<Rightarrow> None
                  | colon # r' \<Rightarrow>
                      if colon \<noteq> CHR '':'' then None
                      else
                        (case json_value n r' of
                           None \<Rightarrow> None
                         | Some (v, r'') \<Rightarrow>
                             (case dropWhile json_space r'' of
                                [] \<Rightarrow> None
                              | x # t \<Rightarrow>
                                  if x = CHR '','' then
                                    map_option (\<lambda>(kvs, u). ((k, v) # kvs, u)) (json_members n t)
                                  else if x = CHR ''}'' then Some ([(k, v)], t)
                                  else None)))))"

definition parse_text :: "string \<Rightarrow> string json option" where
  "parse_text s =
     (case json_value (Suc (length s)) s of
        None \<Rightarrow> None
      | Some (v, r) \<Rightarrow> if dropWhile json_space r = [] then Some v else None)"

text \<open>The sample platform. A number literal is true when a digit before its
  exponent is not zero, and prints as it is written, which is what JavaScript
  does for a plain integer literal.\<close>

definition sample_platform :: "string platform" where
  "sample_platform =
     \<lparr>JSON_parse = parse_text,
      Number_truthy =
        (\<lambda>lit. \<exists>c \<in> set (takeWhile (\<lambda>c. c \<noteq> CHR ''e'' \<and> c \<noteq> CHR ''E'') lit).
                 49 \<le> (of_char c :: nat) \<and> (of_char c :: nat) \<le> 57),
      Number_toString = (\<lambda>lit. lit)\<rparr>"

definition sample_browser :: browser where
  "sample_browser =
     \<lparr>randomUUID = (\<lambda>k. ''message-'' @ show_nat k), now = (\<lambda>k. k), random = (\<lambda>k. 1 / 2)\<rparr>"

text \<open>A relay with its key configured, no uploaded material, and an upstream that
  answers every call with the given response.\<close>

definition sample_deno :: "response \<Rightarrow> string deno" where
  "sample_deno upstream =
     \<lparr>env = [''LOVABLE_API_KEY'' \<mapsto> ''key'', ''SUPABASE_URL'' \<mapsto> ''https://db'',
             ''SUPABASE_SERVICE_ROLE_KEY'' \<mapsto> ''role''],
      createClient = (\<lambda>url key. Inr \<lparr>syllabus = (\<lambda>u. Some []), past_papers = (\<lambda>u. Some [])\<rparr>),
      fetch = (\<lambda>call. Inr upstream),
      destructure_null = ''Cannot destructure''\<rparr>"

definition post :: "string json \<Rightarrow> string request" where
  "post v = \<lparr>req_method = ''POST'', json_body = Inr v\<rparr>"

text \<open>A page with the welcome message only and the given text in the input box.\<close>

definition sample_page :: "string \<Rightarrow> string page" where
  "sample_page typed =
     \<lparr>messages = [\<lparr>ident = ''welcome'', role = Assistant, content = ''Hello!'', timestamp = 0\<rparr>],
      input = typed, isLoading = False, created = 0, requests = [], inserted = [],
      toasts = []\<rparr>"

text \<open>A relay that answers every question with the given chunks.\<close>

definition sample_network :: "string list \<Rightarrow> network" where
  "sample_network chunks = (\<lambda>req. Inr \<lparr>status = 200, headers = [], body = Some chunks\<rparr>)"

text \<open>The line \<^verbatim>\<open>data: {"choices":[{"delta":{"content":t}}]}\<close> with its line feed, the
  text \<open>t\<close> written as a JSON string.\<close>

definition delta_line :: "string \<Rightarrow> string" where
  "delta_line t =
     ''data: {\"choices\":[{\"delta\":{\"content\":\"'' @ concat (map escape t) @
     ''\"}}]}'' @ [LF]"

text \<open>An answer that ends in a fenced block with two topics and a summary, one
  with two fenced blocks, and one whose fenced block is cut short.\<close>

definition answer_with_block :: string where
  "answer_with_block =
     ''Entropy measures disorder.'' @ [LF] @ ''```json'' @ [LF] @
     ''{\"important_topics\":[\"A\",\"B\"],\"summary\":\"S\"}'' @ [LF] @ ''```''"

definition answer_with_two_blocks :: string where
  "answer_with_two_blocks =
     ''First:'' @ [LF] @ ''```json'' @ [LF] @
     ''{\"important_topics\":[\"A\",\"B\"],\"summary\":\"S\"}'' @ [LF] @ ''```'' @ [LF] @
     ''Second:'' @ [LF] @ ''```json'' @ [LF] @
     ''{\"important_topics\":[\"C\"],\"summary\":\"T\"}'' @ [LF] @ ''```''"

definition answer_with_broken_block :: string where
  "answer_with_broken_block =
     ''Entropy measures disorder.'' @ [LF] @ ''```json'' @ [LF] @
     ''{\"important_topics\":[\"A\",'' @ [LF] @ ''```''"

section \<open>The decoder and the events of the stream\<close>

lemma indexOf_first: "c \<notin> set l \<Longrightarrow> indexOf (l @ c # rest) c = Some (length l)"
  by (induction l) auto

lemma indexOf_None: "c \<notin> set s \<Longrightarrow> indexOf s c = None"
  by (induction s) auto

lemma streamChat_lines_no_LF:
  "LF \<notin> set (textBuffer d) \<Longrightarrow> streamChat_lines P B d = d"
  by (subst streamChat_lines.simps) (simp add: indexOf_None)

lemma streamChat_lines_step:
  assumes "LF \<notin> set l" and "textBuffer d = l @ LF # rest"
  shows "streamChat_lines P B d =
     (case event_of_line P l of
        Ignored \<Rightarrow> streamChat_lines P B (d\<lparr>textBuffer := rest\<rparr>)
      | Terminator \<Rightarrow> d\<lparr>textBuffer := rest\<rparr>
      | Malformed \<Rightarrow> d\<lparr>textBuffer := without_CR l @ LF # rest\<rparr>
      | Delta t \<Rightarrow>
          streamChat_lines P B
            (d\<lparr>textBuffer := rest, fullResponse := fullResponse d @ t,
               view := show_response B (fullResponse d @ t) (view d)\<rparr>))"
  using assms
  by (subst streamChat_lines.simps)
     (simp add: indexOf_first event_of_line_def without_CR_def Let_def
        split: outcome.splits option.splits)























text \<open>A content that is an object with a key \<^verbatim>\<open>toString\<close> of its own cannot be
  appended: the conversion throws inside the \<^verbatim>\<open>try\<close> block, so the line is put
  back like one that does not parse, and the delta behind it is not reached.\<close>

lemma content_with_own_toString_blocks:
  "fst (streamChat sample_platform sample_browser
          (sample_network
             [''data: {\"choices\":[{\"delta\":{\"content\":{\"toString\":1}}}]}'' @ [LF] @
              delta_line ''X''])
          None ''q'' (sample_page [])) = Inr [] \<and>
   events sample_platform
     (''data: {\"choices\":[{\"delta\":{\"content\":{\"toString\":1}}}]}'' @ [LF] @
      delta_line ''X'') = [Malformed, Delta ''X''] \<and>
   events sample_platform
     (''data: {\"choices\":[{\"delta\":{\"content\":{\"valueOf\":1}}}]}'' @ [LF] @
      delta_line ''X'') = [Delta ''[object Object]'', Delta ''X'']"
  by code_simp

text \<open>
  C3. After a \<^verbatim>\<open>[DONE]\<close> line only the inner loop is left: the next chunk is read
  and its lines are processed. Here the delta that arrives after \<^verbatim>\<open>[DONE]\<close> is
  part of the answer.
\<close>

theorem streamChat_appends_delta_after_DONE:
  "fst (streamChat sample_platform sample_browser
          (sample_network [''data: [DONE]'' @ [LF], delta_line ''X''])
          None ''q'' (sample_page [])) = Inr ''X''"
  by code_simp








section \<open>The send action\<close>

text \<open>
  C9. Calling \<^verbatim>\<open>handleSend\<close> without a text argument while the input box holds
  nothing but white space does nothing: the page is returned as it was, so no
  message is appended, no request is sent and the loading flag is not set.
\<close>

theorem handleSend_blank_input_noop:
  assumes "trim (input pg) = []"
  shows "handleSend P B net user None pg = pg"
  using assms by (simp add: handleSend_def messageText_of_def)

theorem handleSend_blank_input_noop_witness:
  "trim (input (sample_page ''  '')) = [] \<and>
   handleSend sample_platform sample_browser (sample_network [delta_line ''X''])
     (Some ''u1'') None (sample_page ''  '') = sample_page ''  ''"
proof -
  have blank: "trim (input (sample_page ''  '')) = []"
    by code_simp
  from handleSend_blank_input_noop[OF blank] blank show ?thesis
    by blast
qed

lemma show_response_inserted: "inserted (show_response B f pg) = inserted pg"
  by (simp add: show_response_def Let_def)

lemma streamChat_lines_inserted:
  "inserted (view (streamChat_lines P B d)) = inserted (view d)"
proof (induction "length (textBuffer d)" arbitrary: d rule: less_induct)
  case less
  show ?case
  proof (cases "LF \<in> set (textBuffer d)")
    case False
    then show ?thesis by (simp add: streamChat_lines_no_LF)
  next
    case True
    then obtain l rest where buf: "textBuffer d = l @ LF # rest" and l: "LF \<notin> set l"
      by (auto dest: split_list_first)
    show ?thesis
    proof (cases "event_of_line P l")
      case Ignored
      let ?d = "d\<lparr>textBuffer := rest\<rparr>"
      have "length (textBuffer ?d) < length (textBuffer d)"
        by (simp add: buf)
      from less.hyps[OF this] Ignored show ?thesis
        by (simp add: streamChat_lines_step[OF l buf])
    next
      case (Delta t)
      let ?d = "d\<lparr>textBuffer := rest, fullResponse := fullResponse d @ t,
                  view := show_response B (fullResponse d @ t) (view d)\<rparr>"
      have "length (textBuffer ?d) < length (textBuffer d)"
        by (simp add: buf)
      from less.hyps[OF this] Delta show ?thesis
        by (simp add: streamChat_lines_step[OF l buf] show_response_inserted)
    qed (simp_all add: streamChat_lines_step[OF l buf])
  qed
qed

lemma streamChat_read_inserted:
  "inserted (view (streamChat_read P B chunks d)) = inserted (view d)"
  by (induction chunks arbitrary: d) (simp_all add: streamChat_lines_inserted)

lemma streamChat_inserted:
  "inserted (snd (streamChat P B net user question pg)) = inserted pg"
  by (simp add: streamChat_def Let_def streamChat_read_inserted split: sum.splits option.splits)

text \<open>
  C8. Rows are inserted only for a signed-in user and an answer that is not
  empty: in an anonymous session, or when the stream yields the empty answer,
  \<^verbatim>\<open>handleSend\<close> leaves the inserted rows as they were.
\<close>

theorem handleSend_no_insert:
  assumes "user = None \<or>
     fst (streamChat P B net user (messageText_of text pg)
            (add_user_message B (messageText_of text pg) pg)) = Inr []"
  shows "inserted (handleSend P B net user text pg) = inserted pg"
proof -
  let ?m = "messageText_of text pg"
  obtain res pg2 where s: "streamChat P B net user ?m (add_user_message B ?m pg) = (res, pg2)"
    by (cases "streamChat P B net user ?m (add_user_message B ?m pg)")
  have "inserted pg2 = inserted (add_user_message B ?m pg)"
    using streamChat_inserted[of P B net user ?m "add_user_message B ?m pg"] s by simp
  then have same: "inserted pg2 = inserted pg"
    by (simp add: add_user_message_def Let_def)
  from assms s have "user = None \<or> res = Inr []" by auto
  then show ?thesis
    using s same
    by (auto simp: handleSend_def Let_def split: sum.splits option.splits)
qed

theorem handleSend_no_insert_witness:
  "inserted (handleSend sample_platform sample_browser (sample_network [delta_line ''Hi''])
      None (Some ''q'') (sample_page [])) = [] \<and>
   inserted (handleSend sample_platform sample_browser (sample_network [''data: [DONE]'' @ [LF]])
      (Some ''u1'') (Some ''q'') (sample_page [])) = []"
proof -
  have a: "inserted (handleSend sample_platform sample_browser (sample_network [delta_line ''Hi''])
      None (Some ''q'') (sample_page [])) = inserted (sample_page [])"
    by (rule handleSend_no_insert) simp
  have e: "fst (streamChat sample_platform sample_browser (sample_network [''data: [DONE]'' @ [LF]])
      (Some ''u1'') (messageText_of (Some ''q'') (sample_page []))
      (add_user_message sample_browser (messageText_of (Some ''q'') (sample_page []))
         (sample_page []))) = Inr []"
    by code_simp
  have b: "inserted (handleSend sample_platform sample_browser
      (sample_network [''data: [DONE]'' @ [LF]])
      (Some ''u1'') (Some ''q'') (sample_page [])) = inserted (sample_page [])"
    by (rule handleSend_no_insert, rule disjI2, rule e)
  from a b show ?thesis by (simp add: sample_page_def)
qed

text \<open>
  The fence pattern on a text with a fenced block: when no backquote precedes the
  opening fence and none stands in the block, and the block neither starts nor
  ends in white space, the group of the first match is the block, whatever
  follows the closing fence.
\<close>

lemma backtick_not_space: "\<not> is_space (CHR 0x60)"
  by (simp add: is_space_def)

lemma fenced_group_closing:
  assumes "\<forall>c \<in> set gap. is_space c"
  shows "fenced_group (gap @ ''```'' @ after) = Some []"
proof -
  have "dropWhile is_space (gap @ ''```'' @ after) = ''```'' @ after"
    using assms by (simp add: dropWhile_append2 backtick_not_space)
  then show ?thesis
    by (cases gap) (simp_all add: startsWith_def)
qed

lemma fenced_group_block:
  assumes "CHR 0x60 \<notin> set block"
    and "block \<noteq> [] \<Longrightarrow> \<not> is_space (last block)"
    and "\<forall>c \<in> set gap. is_space c"
  shows "fenced_group (block @ gap @ ''```'' @ after) = Some block"
  using assms
proof (induction block)
  case Nil
  then show ?case using fenced_group_closing[of gap after] by simp
next
  case (Cons c block)
  let ?rest = "gap @ ''```'' @ after"
  from Cons.prems(2) have lst: "\<not> is_space (last (c # block))" by simp
  have "last (c # block) \<in> set (c # block)" by (rule last_in_set) simp
  with lst have split: "dropWhile is_space ((c # block) @ ?rest) =
      dropWhile is_space (c # block) @ ?rest"
    by (intro dropWhile_append1) auto
  from lst \<open>last (c # block) \<in> set (c # block)\<close>
  have ne: "dropWhile is_space (c # block) \<noteq> []"
    by (metis dropWhile_eq_Nil_conv)
  then have "hd (dropWhile is_space (c # block)) \<in> set (c # block)"
    by (metis hd_in_set set_dropWhileD)
  with Cons.prems(1) have "hd (dropWhile is_space (c # block)) \<noteq> CHR 0x60"
    by auto
  with ne have "\<not> startsWith (dropWhile is_space (c # block) @ ?rest) ''```''"
    by (cases "dropWhile is_space (c # block)") (auto simp: startsWith_def)
  with split have no: "\<not> startsWith (dropWhile is_space (c # block @ ?rest)) ''```''"
    by simp
  have "fenced_group (block @ ?rest) = Some block"
    using Cons.prems by (intro Cons.IH) auto
  with no show ?case by simp
qed

text \<open>The pattern matches at the first fence opened with \<^verbatim>\<open>json\<close>: whatever
  follows the closing fence, a second block included, the group is the text of
  the first block without the white space around it.\<close>

lemma match_json_fenced:
  assumes "CHR 0x60 \<notin> set pre"
    and "\<forall>c \<in> set gap. is_space c" and "\<forall>c \<in> set gap'. is_space c"
    and "CHR 0x60 \<notin> set block"
    and "block \<noteq> [] \<Longrightarrow> \<not> is_space (hd block) \<and> \<not> is_space (last block)"
  shows "match_json (pre @ ''```json'' @ gap @ block @ gap' @ ''```'' @ after) = Some block"
  using assms(1)
proof (induction pre)
  case Nil
  have "dropWhile is_space (gap @ block @ gap' @ ''```'' @ after) =
      dropWhile is_space (block @ gap' @ ''```'' @ after)"
    using assms(2) by (simp add: dropWhile_append2)
  moreover have "fenced_group (dropWhile is_space (block @ gap' @ ''```'' @ after)) = Some block"
  proof (cases block)
    case Nil
    have "dropWhile is_space (gap' @ ''```'' @ after) = ''```'' @ after"
      using assms(3) by (simp add: dropWhile_append2 backtick_not_space)
    with Nil fenced_group_closing[of "[]" after] show ?thesis by simp
  next
    case (Cons c cs)
    with assms(5) have "dropWhile is_space (block @ gap' @ ''```'' @ after) =
        block @ gap' @ ''```'' @ after"
      by simp
    with fenced_group_block[OF assms(4) _ assms(3), of after] assms(5) show ?thesis
      by simp
  qed
  ultimately show ?case
    by (simp add: match_at_def startsWith_def)
next
  case (Cons c pre)
  then have "match_at (c # pre @ ''```json'' @ gap @ block @ gap' @ ''```'' @ after) = None"
    by (auto simp: match_at_def startsWith_def)
  with Cons show ?case by simp
qed

text \<open>The likelihood. \<^verbatim>\<open>Math.random()\<close> returns a double in \<open>[0, 1)\<close>; its
  product by 30 is rounded to the nearest double, ties to even, before the floor
  is taken. The number drawn is at most \<open>1 - 1 / 2 ^ 53\<close>, so the rounded
  product stays below 30 and the likelihood lies between 70 and 99.\<close>

lemma round_even_nonneg: "0 \<le> y \<Longrightarrow> 0 \<le> round_even y"
  by (auto simp: round_even_def)

lemma round_even_le: "y \<le> of_int n \<Longrightarrow> round_even y \<le> n"
proof -
  assume y: "y \<le> of_int n"
  show ?thesis
  proof (cases "y = of_int n")
    case True
    then show ?thesis by (simp add: round_even_def)
  next
    case False
    with y have "y < of_int n" by simp
    then have "\<lfloor>y\<rfloor> < n" by (simp add: floor_less_iff)
    then show ?thesis by (auto simp: round_even_def)
  qed
qed

lemma round_even_less_half:
  assumes "y < of_int n - 1 / 2"
  shows "round_even y \<le> n - 1"
proof -
  from assms have "y < of_int n" by simp
  then have f: "\<lfloor>y\<rfloor> \<le> n - 1" by (simp add: floor_less_iff)
  show ?thesis
  proof (cases "\<lfloor>y\<rfloor> = n - 1")
    case True
    with assms have "y - of_int \<lfloor>y\<rfloor> < 1 / 2" by simp
    with True show ?thesis by (simp add: round_even_def)
  next
    case False
    with f have "\<lfloor>y\<rfloor> + 1 \<le> n - 1" by simp
    then show ?thesis by (auto simp: round_even_def)
  qed
qed

lemma two_powi_pos: "0 < (2::real) powi e"
  by (simp add: power_int_def)

lemma two_powi_split: "(2::real) powi e = 2 ^ 53 * 2 powi (e - 53)"
proof -
  have "(2::real) powi e = 2 powi (53 + (e - 53))" by simp
  also have "\<dots> = 2 powi 53 * 2 powi (e - 53)"
    by (subst power_int_add) simp_all
  finally show ?thesis by simp
qed

lemma binary64_from_nonneg: "0 \<le> x \<Longrightarrow> 0 \<le> binary64_from e x"
proof (induction e x rule: binary64_from.induct)
  case (1 e x)
  show ?case
  proof (cases "2 powi e \<le> x \<or> e \<le> - 1022")
    case True
    have "0 \<le> x / 2 powi (e - 52)"
      using 1(2) two_powi_pos[of "e - 52"] by simp
    then have "0 \<le> round_even (x / 2 powi (e - 52))"
      by (rule round_even_nonneg)
    with True show ?thesis
      using two_powi_pos[of "e - 52"]
      by (subst binary64_from.simps) simp
  next
    case False
    with 1 show ?thesis
      by (subst binary64_from.simps) simp
  qed
qed

lemma binary64_from_le:
  "x < 2 powi (e + 1) \<Longrightarrow> binary64_from e x \<le> 2 powi (e + 1)"
proof (induction e x rule: binary64_from.induct)
  case (1 e x)
  show ?case
  proof (cases "2 powi e \<le> x \<or> e \<le> - 1022")
    case True
    let ?u = "(2::real) powi (e - 52)"
    have u: "0 < ?u" by (rule two_powi_pos)
    have top: "(2::real) powi (e + 1) = 2 ^ 53 * ?u"
      using two_powi_split[of "e + 1"] by simp
    with 1(2) u have "x / ?u \<le> of_int (2 ^ 53)"
      by (simp add: field_simps)
    then have "round_even (x / ?u) \<le> 2 ^ 53"
      by (rule round_even_le)
    then have "of_int (round_even (x / ?u)) \<le> (2 ^ 53 :: real)"
      by (metis of_int_le_iff of_int_numeral of_int_power)
    with u have "of_int (round_even (x / ?u)) * ?u \<le> 2 ^ 53 * ?u"
      by (simp add: mult_right_mono)
    with True top show ?thesis
      by (subst binary64_from.simps) simp
  next
    case False
    then have "x < 2 powi (e - 1 + 1)" by simp
    with 1(1) False have "binary64_from (e - 1) x \<le> 2 powi e" by simp
    moreover have "(2::real) powi e \<le> 2 powi (e + 1)"
      by (rule power_int_increasing) simp_all
    ultimately show ?thesis
      using False by (subst binary64_from.simps) simp
  qed
qed

lemma binary64_from_skip:
  assumes "x < 2 powi (e' + 1)" and "- 1022 \<le> e'" and "e' \<le> e"
  shows "binary64_from e x = binary64_from e' x"
  using assms(3)
proof (induction "nat (e - e')" arbitrary: e)
  case 0
  then show ?case by simp
next
  case (Suc n)
  then have gt: "e' < e" by linarith
  then have "(2::real) powi (e' + 1) \<le> 2 powi e"
    by (intro power_int_increasing) simp_all
  with assms(1) have "\<not> 2 powi e \<le> x" by simp
  moreover from gt assms(2) have "\<not> e \<le> - 1022" by simp
  ultimately have "binary64_from e x = binary64_from (e - 1) x"
    by (subst binary64_from.simps) simp
  moreover have "binary64_from (e - 1) x = binary64_from e' x"
    using Suc gt by (intro Suc.hyps) linarith+
  ultimately show ?case by simp
qed

lemma binary64_at:
  assumes "2 powi e \<le> x" and "x < 2 powi (e + 1)" and "- 1022 \<le> e" and "e \<le> 1023"
  shows "binary64 x = of_int (round_even (x / 2 powi (e - 52))) * 2 powi (e - 52)"
proof -
  have "binary64 x = binary64_from e x"
    unfolding binary64_def using assms(2-4) by (rule binary64_from_skip)
  then show ?thesis
    using assms(1) by (subst (asm) binary64_from.simps) simp
qed

lemma binary64_below:
  assumes "x < 2 powi (e + 1)" and "- 1022 \<le> e" and "e \<le> 1023"
  shows "binary64 x \<le> 2 powi (e + 1)"
proof -
  have "binary64 x = binary64_from e x"
    unfolding binary64_def using assms by (rule binary64_from_skip)
  with binary64_from_le[OF assms(1)] show ?thesis by simp
qed

lemma of_int_below:
  fixes k n :: int
  assumes "(of_int k :: real) < of_int n"
  shows "(of_int k :: real) \<le> of_int n - 1"
proof -
  from assms have "k < n" by simp
  then have "k \<le> n - 1" by simp
  then have "(of_int k :: real) \<le> of_int (n - 1)" by (simp only: of_int_le_iff)
  then show ?thesis by simp
qed

lemma random_value_le:
  assumes "random_value r"
  shows "r \<le> 1 - 1 / 2 ^ 53"
proof (cases "r < 1 / 2")
  case True
  have "(1::real) / 2 ^ 53 \<le> 1 / 2 ^ 1"
    by (intro divide_left_mono power_increasing) simp_all
  with True show ?thesis by simp
next
  case False
  define c :: real where "c = 2 ^ 53"
  have c: "0 < c" by (simp add: c_def)
  have ci: "c = of_int (2 ^ 53)" by (simp add: c_def)
  have u: "(2::real) powi (- 1 - 52) = 1 / c"
    by (simp add: c_def power_int_minus_divide)
  from assms have r: "r < 1" "binary64 r = r" by (simp_all add: random_value_def)
  have "1 / 2 \<le> r" using False by simp
  then have "2 powi (- 1) \<le> r" by simp
  moreover have "r < 2 powi (- 1 + 1)" using r(1) by simp
  ultimately have "binary64 r = of_int (round_even (r / 2 powi (- 1 - 52))) * 2 powi (- 1 - 52)"
    by (rule binary64_at) simp_all
  then obtain k :: int where "binary64 r = of_int k * (1 / c)"
    unfolding u by blast
  with r(2) have rk: "r = of_int k / c" by simp
  with r(1) c have "of_int k < c" by (simp add: divide_less_eq)
  then have "of_int k \<le> c - 1"
    unfolding ci by (rule of_int_below)
  then have "of_int k / c \<le> (c - 1) / c"
    using c by (simp add: divide_right_mono)
  also have "(c - 1) / c = 1 - 1 / c"
    using c by (simp add: diff_divide_distrib)
  finally show ?thesis
    by (simp add: rk c_def)
qed


lemma likelihood_range:
  assumes "random_value r"
  shows "70 \<le> likelihood r \<and> likelihood r \<le> 99"
proof -
  define x where "x = r * 30"
  define c :: real where "c = 2 ^ 53"
  define d :: real where "d = 2 ^ 48"
  have d: "0 < d" by (simp add: d_def)
  have cd: "c = 32 * d"
  proof -
    have "(2::real) ^ 53 = 2 ^ 5 * 2 ^ 48"
      by (simp only: power_add[symmetric]) simp
    then show ?thesis by (simp add: c_def d_def)
  qed
  from assms have "0 \<le> r" by (simp add: random_value_def)
  then have x0: "0 \<le> x" by (simp add: x_def)
  from random_value_le[OF assms] have "r \<le> 1 - 1 / c" by (simp add: c_def)
  then have "x \<le> (1 - 1 / c) * 30" by (simp add: x_def)
  also have "\<dots> = 30 - 30 / c" by (simp add: algebra_simps)
  finally have x30: "x \<le> 30 - 30 / c" .
  have "0 < 30 / c" using d by (simp add: cd)
  with x30 have xlt: "x < 30" by linarith
  have "0 \<le> binary64 x"
    unfolding binary64_def using x0 by (rule binary64_from_nonneg)
  then have low: "0 \<le> \<lfloor>binary64 x\<rfloor>" by simp
  have "binary64 x < 30"
  proof (cases "x < 16")
    case True
    then have "x < 2 powi (3 + 1)" by simp
    then have "binary64 x \<le> 2 powi (3 + 1)"
      by (rule binary64_below) simp_all
    then show ?thesis by simp
  next
    case False
    have u: "(2::real) powi (4 - 52) = 1 / d"
      by (simp add: d_def power_int_minus_divide)
    from False have "2 powi 4 \<le> x" by simp
    moreover from xlt have "x < 2 powi (4 + 1)" by simp
    ultimately have "binary64 x = of_int (round_even (x / 2 powi (4 - 52))) * 2 powi (4 - 52)"
      by (rule binary64_at) simp_all
    then have b: "binary64 x = of_int (round_even (x * d)) / d"
      unfolding u by simp
    have n: "(of_int (30 * 2 ^ 48) :: real) = 30 * d"
      by (simp add: d_def)
    have "x * d \<le> (30 - 30 / c) * d"
      using x30 d by (simp add: mult_right_mono)
    also have "\<dots> = 30 * d - 30 / 32"
      using d by (simp add: cd algebra_simps)
    also have "\<dots> < of_int (30 * 2 ^ 48) - 1 / 2"
      unfolding n by simp
    finally have "round_even (x * d) \<le> 30 * 2 ^ 48 - 1"
      by (rule round_even_less_half)
    then have "(of_int (round_even (x * d)) :: real) \<le> of_int (30 * 2 ^ 48 - 1)"
      by (simp only: of_int_le_iff)
    also have "\<dots> = 30 * d - 1"
      using n by simp
    finally have "of_int (round_even (x * d)) / d \<le> (30 * d - 1) / d"
      using d by (simp add: divide_right_mono)
    also have "\<dots> = 30 - 1 / d"
      using d by (simp add: diff_divide_distrib)
    also have "\<dots> < 30" using d by simp
    finally show ?thesis by (simp add: b)
  qed
  then have "\<lfloor>binary64 x\<rfloor> < 30" by (simp add: floor_less_iff)
  with low show ?thesis by (simp add: likelihood_def x_def)
qed


lemma round_even_of_int: "round_even (of_int m) = m"
  by (simp add: round_even_def)

lemma binary64_half: "binary64 (1 / 2) = 1 / 2"
proof -
  have u: "(2::real) powi (- 1 - 52) = 1 / 2 ^ 53"
    by (simp add: power_int_minus_divide)
  have "2 powi (- 1) \<le> (1 / 2 :: real)" by simp
  moreover have "(1 / 2 :: real) < 2 powi (- 1 + 1)" by simp
  ultimately have "binary64 (1 / 2) =
      of_int (round_even ((1 / 2) / 2 powi (- 1 - 52))) * 2 powi (- 1 - 52)"
    by (rule binary64_at) simp_all
  moreover have "(1 / 2) / (1 / 2 ^ 53) = (of_int (2 ^ 52) :: real)"
    by simp
  ultimately show ?thesis
    unfolding u by (simp only: round_even_of_int) simp
qed

lemma random_value_half: "random_value (1 / 2)"
  by (simp add: random_value_def binary64_half)

lemma likelihood_half: "likelihood (1 / 2) = 85"
proof -
  have u: "(2::real) powi (3 - 52) = 1 / 2 ^ 49"
    by (simp add: power_int_minus_divide)
  have "2 powi 3 \<le> (15 :: real)" by simp
  moreover have "(15 :: real) < 2 powi (3 + 1)" by simp
  ultimately have "binary64 15 = of_int (round_even (15 / 2 powi (3 - 52))) * 2 powi (3 - 52)"
    by (rule binary64_at) simp_all
  moreover have "15 / (1 / 2 ^ 49) = (of_int (15 * 2 ^ 49) :: real)"
    by simp
  ultimately have "binary64 15 = 15"
    unfolding u by (simp only: round_even_of_int) simp
  then show ?thesis by (simp add: likelihood_def)
qed


lemma round_even_above_half:
  assumes "1 / 2 < t" and "t < 1"
  shows "round_even (of_int m + t) = m + 1"
proof -
  from assms have "\<lfloor>of_int m + t\<rfloor> = m"
    by (simp add: floor_eq_iff)
  with assms show ?thesis
    by (simp add: round_even_def)
qed

text \<open>The product is rounded before the floor is taken: for the value
  \<open>5104079577686562 / 2 ^ 53\<close> the exact product is \<open>17 - 1 / 2 ^ 51\<close>, whose
  floor is 16; it rounds to 17, and the likelihood is 87.\<close>

lemma likelihood_rounds_up:
  "random_value (5104079577686562 / 2 ^ 53) \<and>
   \<lfloor>5104079577686562 / 2 ^ 53 * 30 :: real\<rfloor> = 16 \<and>
   likelihood (5104079577686562 / 2 ^ 53) = 87"
proof -
  define r :: real where "r = 5104079577686562 / 2 ^ 53"
  have u: "(2::real) powi (- 1 - 52) = 1 / 2 ^ 53"
    by (simp add: power_int_minus_divide)
  have v: "(2::real) powi (4 - 52) = 1 / 2 ^ 48"
    by (simp add: power_int_minus_divide)
  have "2 powi (- 1) \<le> r" by (simp add: r_def)
  moreover have "r < 2 powi (- 1 + 1)" by (simp add: r_def)
  ultimately have "binary64 r = of_int (round_even (r / 2 powi (- 1 - 52))) * 2 powi (- 1 - 52)"
    by (rule binary64_at) simp_all
  moreover have "r / (1 / 2 ^ 53) = (of_int 5104079577686562 :: real)"
    by (simp add: r_def)
  ultimately have "binary64 r = r"
    unfolding u by (simp only: round_even_of_int) (simp add: r_def)
  then have 1: "random_value r"
    by (simp add: random_value_def) (simp add: r_def)
  have 2: "\<lfloor>r * 30\<rfloor> = 16"
    by (simp add: floor_eq_iff r_def)
  have "2 powi 4 \<le> r * 30" by (simp add: r_def)
  moreover have "r * 30 < 2 powi (4 + 1)" by (simp add: r_def)
  ultimately have "binary64 (r * 30) =
      of_int (round_even (r * 30 / 2 powi (4 - 52))) * 2 powi (4 - 52)"
    by (rule binary64_at) simp_all
  then have b: "binary64 (r * 30) =
      of_int (round_even (r * 30 / (1 / 2 ^ 48))) * (1 / 2 ^ 48)"
    by (simp only: v)
  have y: "r * 30 / (1 / 2 ^ 48) = of_int (17 * 2 ^ 48 - 1) + 7 / 8"
    by (simp add: r_def)
  have re: "round_even (of_int (17 * 2 ^ 48 - 1) + 7 / 8) = 17 * 2 ^ 48 - 1 + 1"
    by (rule round_even_above_half) simp_all
  have "binary64 (r * 30) = of_int (17 * 2 ^ 48 - 1 + 1) * (1 / 2 ^ 48)"
    by (simp only: b y re)
  then have "binary64 (r * 30) = 17"
    by simp
  then have 3: "likelihood r = 87" by (simp add: likelihood_def)
  from 1 2 3 show ?thesis by (simp add: r_def)
qed

lemma save_answer_block:
  assumes "match_json response = Some block"
    and "JSON_parse P block = Some parsed"
    and "member parsed ''important_topics'' = Some (JArray [JString a, JString b])"
    and "member parsed ''summary'' = Some (JString s)"
  shows "inserted (save_answer P B uid m response pg) =
     inserted pg @
       [Important_topic uid ''General'' (JString a) (likelihood (random B 0)),
        Important_topic uid ''General'' (JString b) (likelihood (random B 1)),
        Ai_answer uid m response (JString s) ''General'']"
  using assms by (cases parsed) (auto simp: save_answer_def)

lemma save_answer_no_block:
  assumes "match_json response = None \<or>
     (\<exists>block. match_json response = Some block \<and> JSON_parse P block = None)"
  shows "inserted (save_answer P B uid m response pg) =
     inserted pg @ [Ai_answer uid m response (JString []) ''General'']"
  using assms by (auto simp: save_answer_def)

lemma handleSend_saves:
  assumes "messageText_of text pg \<noteq> []"
    and "fst (streamChat P B net (Some uid) (messageText_of text pg)
            (add_user_message B (messageText_of text pg) pg)) = Inr response"
    and "response \<noteq> []"
  shows "inserted (handleSend P B net (Some uid) text pg) =
     inserted (save_answer P B uid (messageText_of text pg) response
       (snd (streamChat P B net (Some uid) (messageText_of text pg)
              (add_user_message B (messageText_of text pg) pg))))"
  using assms
  by (cases "streamChat P B net (Some uid) (messageText_of text pg)
              (add_user_message B (messageText_of text pg) pg)")
     (simp add: handleSend_def)

lemma sent_inserted:
  "inserted (snd (streamChat P B net user m (add_user_message B m pg))) = inserted pg"
  by (simp add: streamChat_inserted add_user_message_def Let_def)

lemma match_json_not_Nil: "match_json response = Some block \<Longrightarrow> response \<noteq> []"
  by auto

text \<open>
  C6, as amended. For a signed-in user whose question was sent and answered: when
  the first match of the fence pattern in the answer holds an object whose
  \<^verbatim>\<open>important_topics\<close> are the strings \<open>a\<close> and \<open>b\<close> and whose \<^verbatim>\<open>summary\<close> is
  \<open>s\<close>, exactly three rows are inserted: one topic row for \<open>a\<close>, one for \<open>b\<close>,
  and one answer row with the summary \<open>s\<close>. The likelihood of a topic row is 70
  plus the floor of the double nearest to 30 times the number drawn for it, and
  lies between 70 and 99. Of several fenced blocks in the answer the first is
  the one used.
\<close>

theorem handleSend_extracts_topics:
  assumes "messageText_of text pg \<noteq> []"
    and "fst (streamChat P B net (Some uid) (messageText_of text pg)
            (add_user_message B (messageText_of text pg) pg)) = Inr response"
    and "match_json response = Some block"
    and "JSON_parse P block = Some parsed"
    and "member parsed ''important_topics'' = Some (JArray [JString a, JString b])"
    and "member parsed ''summary'' = Some (JString s)"
    and "random_value (random B 0)" and "random_value (random B 1)"
  shows "inserted (handleSend P B net (Some uid) text pg) =
     inserted pg @
       [Important_topic uid ''General'' (JString a) (likelihood (random B 0)),
        Important_topic uid ''General'' (JString b) (likelihood (random B 1)),
        Ai_answer uid (messageText_of text pg) response (JString s) ''General''] \<and>
     70 \<le> likelihood (random B 0) \<and> likelihood (random B 0) \<le> 99 \<and>
     70 \<le> likelihood (random B 1) \<and> likelihood (random B 1) \<le> 99"
proof -
  have "inserted (handleSend P B net (Some uid) text pg) =
     inserted pg @
       [Important_topic uid ''General'' (JString a) (likelihood (random B 0)),
        Important_topic uid ''General'' (JString b) (likelihood (random B 1)),
        Ai_answer uid (messageText_of text pg) response (JString s) ''General'']"
    by (simp add: handleSend_saves[OF assms(1,2) match_json_not_Nil[OF assms(3)]]
        save_answer_block[OF assms(3-6)] sent_inserted)
  then show ?thesis
    using likelihood_range[OF assms(7)] likelihood_range[OF assms(8)] by simp
qed

theorem handleSend_extracts_topics_witness:
  "match_json answer_with_block =
     Some ''{\"important_topics\":[\"A\",\"B\"],\"summary\":\"S\"}'' \<and>
   inserted (handleSend sample_platform sample_browser
      (sample_network [delta_line answer_with_block]) (Some ''u1'') (Some ''q'')
      (sample_page [])) =
     [Important_topic ''u1'' ''General'' (JString ''A'') 85,
      Important_topic ''u1'' ''General'' (JString ''B'') 85,
      Ai_answer ''u1'' ''q'' answer_with_block (JString ''S'') ''General''] \<and>
   inserted (handleSend sample_platform sample_browser
      (sample_network [delta_line answer_with_two_blocks]) (Some ''u1'') (Some ''q'')
      (sample_page [])) =
     [Important_topic ''u1'' ''General'' (JString ''A'') 85,
      Important_topic ''u1'' ''General'' (JString ''B'') 85,
      Ai_answer ''u1'' ''q'' answer_with_two_blocks (JString ''S'') ''General'']"
proof -
  let ?pg = "sample_page [] :: string page"
  let ?block = "''{\"important_topics\":[\"A\",\"B\"],\"summary\":\"S\"}''"
  let ?parsed = "JObject [(''important_topics'', JArray [JString ''A'', JString ''B'']),
                          (''summary'', JString ''S'')] :: string json"
  have m: "messageText_of (Some ''q'') ?pg = ''q''"
    by (simp add: messageText_of_def)
  have 1: "messageText_of (Some ''q'') ?pg \<noteq> []"
    by (simp add: m)
  have a2: "fst (streamChat sample_platform sample_browser
             (sample_network [delta_line answer_with_block]) (Some ''u1'')
             (messageText_of (Some ''q'') ?pg)
             (add_user_message sample_browser (messageText_of (Some ''q'') ?pg) ?pg)) =
           Inr answer_with_block"
    by code_simp
  have a3: "match_json answer_with_block = Some ?block"
    by code_simp
  have b2: "fst (streamChat sample_platform sample_browser
             (sample_network [delta_line answer_with_two_blocks]) (Some ''u1'')
             (messageText_of (Some ''q'') ?pg)
             (add_user_message sample_browser (messageText_of (Some ''q'') ?pg) ?pg)) =
           Inr answer_with_two_blocks"
    by code_simp
  have b3: "match_json answer_with_two_blocks = Some ?block"
    by code_simp
  have 4: "JSON_parse sample_platform ?block = Some ?parsed"
    by code_simp
  have 5: "member ?parsed ''important_topics'' = Some (JArray [JString ''A'', JString ''B''])"
    by simp
  have 6: "member ?parsed ''summary'' = Some (JString ''S'')"
    by simp
  have r: "random sample_browser k = 1 / 2" for k
    by (simp add: sample_browser_def)
  have 7: "random_value (random sample_browser 0)"
    and 8: "random_value (random sample_browser 1)"
    by (simp_all only: r random_value_half)
  have i: "inserted ?pg = []"
    by (simp add: sample_page_def)
  from handleSend_extracts_topics[OF 1 a2 a3 4 5 6 7 8, unfolded m r likelihood_half i]
    handleSend_extracts_topics[OF 1 b2 b3 4 5 6 7 8, unfolded m r likelihood_half i] a3
  show ?thesis
    by simp
qed

text \<open>
  C6 as stated fails for an anonymous session: the answer holds the well-formed
  block, and no row is inserted.
\<close>

theorem handleSend_anonymous_block_not_saved:
  "match_json answer_with_block =
     Some ''{\"important_topics\":[\"A\",\"B\"],\"summary\":\"S\"}'' \<and>
   fst (streamChat sample_platform sample_browser
      (sample_network [delta_line answer_with_block]) None ''q''
      (add_user_message sample_browser ''q'' (sample_page []))) = Inr answer_with_block \<and>
   inserted (handleSend sample_platform sample_browser
      (sample_network [delta_line answer_with_block]) None (Some ''q'')
      (sample_page [])) = []"
  by code_simp

text \<open>
  C7, as amended. For a signed-in user whose question was sent and whose answer is
  not empty: when the fence pattern does not match the answer, or the text it
  captures does not parse, no topic row is inserted and the answer is inserted
  as one row with the empty summary.
\<close>

theorem handleSend_without_block:
  assumes "messageText_of text pg \<noteq> []"
    and "fst (streamChat P B net (Some uid) (messageText_of text pg)
            (add_user_message B (messageText_of text pg) pg)) = Inr response"
    and "response \<noteq> []"
    and "match_json response = None \<or>
         (\<exists>block. match_json response = Some block \<and> JSON_parse P block = None)"
  shows "inserted (handleSend P B net (Some uid) text pg) =
     inserted pg @ [Ai_answer uid (messageText_of text pg) response (JString []) ''General'']"
  by (simp add: handleSend_saves[OF assms(1-3)] save_answer_no_block[OF assms(4)] sent_inserted)

theorem handleSend_without_block_witness:
  "inserted (handleSend sample_platform sample_browser
      (sample_network [delta_line ''Hel'', delta_line ''lo'']) (Some ''u1'') (Some ''q'')
      (sample_page [])) =
     [Ai_answer ''u1'' ''q'' ''Hello'' (JString []) ''General''] \<and>
   inserted (handleSend sample_platform sample_browser
      (sample_network [delta_line answer_with_broken_block]) (Some ''u1'') (Some ''q'')
      (sample_page [])) =
     [Ai_answer ''u1'' ''q'' answer_with_broken_block (JString []) ''General'']"
proof -
  let ?pg = "sample_page [] :: string page"
  have m: "messageText_of (Some ''q'') ?pg = ''q''"
    by (simp add: messageText_of_def)
  have 1: "messageText_of (Some ''q'') ?pg \<noteq> []"
    by (simp add: m)
  have a2: "fst (streamChat sample_platform sample_browser
             (sample_network [delta_line ''Hel'', delta_line ''lo'']) (Some ''u1'')
             (messageText_of (Some ''q'') ?pg)
             (add_user_message sample_browser (messageText_of (Some ''q'') ?pg) ?pg)) =
           Inr ''Hello''"
    by code_simp
  have a4: "match_json ''Hello'' = None \<or>
      (\<exists>block. match_json ''Hello'' = Some block \<and> JSON_parse sample_platform block = None)"
    by (rule disjI1) code_simp
  have b2: "fst (streamChat sample_platform sample_browser
             (sample_network [delta_line answer_with_broken_block]) (Some ''u1'')
             (messageText_of (Some ''q'') ?pg)
             (add_user_message sample_browser (messageText_of (Some ''q'') ?pg) ?pg)) =
           Inr answer_with_broken_block"
    by code_simp
  have b3: "answer_with_broken_block \<noteq> []"
    by (simp add: answer_with_broken_block_def)
  have bm: "match_json answer_with_broken_block = Some ''{\"important_topics\":[\"A\",''"
    by code_simp
  have bp: "JSON_parse sample_platform ''{\"important_topics\":[\"A\",'' = None"
    by code_simp
  have b4: "match_json answer_with_broken_block = None \<or>
      (\<exists>block. match_json answer_with_broken_block = Some block \<and>
         JSON_parse sample_platform block = None)"
    using bm bp by blast
  have a3: "''Hello'' \<noteq> []"
    by simp
  have i: "inserted ?pg = []"
    by (simp add: sample_page_def)
  from handleSend_without_block[OF 1 a2 a3 a4, unfolded m i]
    handleSend_without_block[OF 1 b2 b3 b4, unfolded m i]
  show ?thesis
    by simp
qed

text \<open>
  C7 as stated fails for an anonymous session and for the empty answer: neither
  has a fenced block, and no answer row is inserted.
\<close>

theorem handleSend_answer_not_saved:
  "match_json ''Hello'' = None \<and>
   fst (streamChat sample_platform sample_browser
      (sample_network [delta_line ''Hello'']) None ''q''
      (add_user_message sample_browser ''q'' (sample_page []))) = Inr ''Hello'' \<and>
   inserted (handleSend sample_platform sample_browser
      (sample_network [delta_line ''Hello'']) None (Some ''q'') (sample_page [])) = [] \<and>
   fst (streamChat sample_platform sample_browser
      (sample_network [''data: {}'' @ [LF]]) (Some ''u1'') ''q''
      (add_user_message sample_browser ''q'' (sample_page []))) = Inr [] \<and>
   inserted (handleSend sample_platform sample_browser
      (sample_network [''data: {}'' @ [LF]]) (Some ''u1'') (Some ''q'') (sample_page [])) = []"
  by code_simp

section \<open>The relay's responses\<close>

lemma stringify_rate_limit:
  "stringify_error ''Rate limit exceeded. Please try again later.'' =
   ''{\"error\":\"Rate limit exceeded. Please try again later.\"}''"
  by code_simp

lemma stringify_payment:
  "stringify_error ''Payment required. Please add credits to continue.'' =
   ''{\"error\":\"Payment required. Please add credits to continue.\"}''"
  by code_simp

lemma stringify_service:
  "stringify_error ''AI service error'' = ''{\"error\":\"AI service error\"}''"
  by code_simp

lemma stringify_required:
  "stringify_error ''Question is required'' = ''{\"error\":\"Question is required\"}''"
  by code_simp

text \<open>
  C2, as amended. A POST request whose body is a JSON value other than \<^verbatim>\<open>null\<close>
  and whose \<^verbatim>\<open>question\<close> is missing or not truthy (the empty string, \<^verbatim>\<open>null\<close>,
  \<^verbatim>\<open>false\<close>, zero) is answered with the status 400 and the body
  \<^verbatim>\<open>{"error":"Question is required"}\<close>, and no upstream call is made.
\<close>

theorem serve_question_required:
  assumes "req_method req \<noteq> ''OPTIONS''"
    and "json_body req = Inr parsed" and "parsed \<noteq> JNull"
    and "\<forall>v. member parsed ''question'' = Some v \<longrightarrow> \<not> truthy P v"
  shows "serve P D req =
     (\<lparr>status = 400, headers = corsHeaders @ [(''Content-Type'', ''application/json'')],
       body = Some [''{\"error\":\"Question is required\"}'']\<rparr>,
      \<lparr>fetched = [], logged = []\<rparr>)"
  using assms
  by (cases parsed; cases "member parsed ''question''")
     (simp_all add: serve_def ask_ai_def error_response_def stringify_required Let_def)

theorem serve_question_required_witness:
  "serve sample_platform
     (sample_deno \<lparr>status = 200, headers = [], body = Some [delta_line ''Hi'']\<rparr>)
     (post (JObject [(''userId'', JString ''u1'')])) =
     (\<lparr>status = 400, headers = corsHeaders @ [(''Content-Type'', ''application/json'')],
       body = Some [''{\"error\":\"Question is required\"}'']\<rparr>,
      \<lparr>fetched = [], logged = []\<rparr>) \<and>
   serve sample_platform
     (sample_deno \<lparr>status = 200, headers = [], body = Some [delta_line ''Hi'']\<rparr>)
     (post (JObject [(''question'', JString [])])) =
     (\<lparr>status = 400, headers = corsHeaders @ [(''Content-Type'', ''application/json'')],
       body = Some [''{\"error\":\"Question is required\"}'']\<rparr>,
      \<lparr>fetched = [], logged = []\<rparr>)"
proof -
  let ?D = "sample_deno \<lparr>status = 200, headers = [], body = Some [delta_line ''Hi'']\<rparr>"
  have a: "serve sample_platform ?D (post (JObject [(''userId'', JString ''u1'')])) =
     (\<lparr>status = 400, headers = corsHeaders @ [(''Content-Type'', ''application/json'')],
       body = Some [''{\"error\":\"Question is required\"}'']\<rparr>,
      \<lparr>fetched = [], logged = []\<rparr>)"
    by (rule serve_question_required[where parsed = "JObject [(''userId'', JString ''u1'')]"])
       (simp_all add: post_def)
  have b: "serve sample_platform ?D (post (JObject [(''question'', JString [])])) =
     (\<lparr>status = 400, headers = corsHeaders @ [(''Content-Type'', ''application/json'')],
       body = Some [''{\"error\":\"Question is required\"}'']\<rparr>,
      \<lparr>fetched = [], logged = []\<rparr>)"
    by (rule serve_question_required[where parsed = "JObject [(''question'', JString [])]"])
       (simp_all add: post_def)
  from a b show ?thesis by simp
qed

text \<open>
  C2 as stated fails for a question of white space only: it is truthy, the
  upstream call is made with it and the upstream answer is passed on. A body that
  is the JSON \<^verbatim>\<open>null\<close> has no question either and is answered with the status 500.
\<close>

theorem serve_forwards_blank_question:
  "status (fst (serve sample_platform
      (sample_deno \<lparr>status = 200, headers = [], body = Some [delta_line ''Hi'']\<rparr>)
      (post (JObject [(''question'', JString ''   '')])))) = 200 \<and>
   map user_content (fetched (snd (serve sample_platform
      (sample_deno \<lparr>status = 200, headers = [], body = Some [delta_line ''Hi'']\<rparr>)
      (post (JObject [(''question'', JString ''   '')]))))) = [JString ''   ''] \<and>
   status (fst (serve sample_platform
      (sample_deno \<lparr>status = 200, headers = [], body = Some [delta_line ''Hi'']\<rparr>)
      (post JNull))) = 500"
  by code_simp

text \<open>
  C5. For a truthy question, a configured key and a database client, when the
  upstream call returns a response: the status 429 is answered with 429 and the
  rate-limit message, 402 with 402 and the payment message, any other status
  outside 200 to 299 with 500 and \<^verbatim>\<open>{"error":"AI service error"}\<close> after the
  status and the body are logged, and a status from 200 to 299 with 200, the
  content type \<^verbatim>\<open>text/event-stream\<close> and the upstream body as it is.
\<close>

theorem serve_upstream_status:
  assumes "req_method req \<noteq> ''OPTIONS''"
    and "json_body req = Inr parsed"
    and "member parsed ''question'' = Some q" and "truthy P q"
    and "env D ''LOVABLE_API_KEY'' = Some k" and "k \<noteq> []"
    and "createClient D (env D ''SUPABASE_URL'') (env D ''SUPABASE_SERVICE_ROLE_KEY'') = Inr sb"
    and "call = completion_call P sb k q (member parsed ''userId'')"
    and "fetch D call = Inr r"
  shows "serve P D req =
     (if status r = 429 then
        (\<lparr>status = 429, headers = corsHeaders @ [(''Content-Type'', ''application/json'')],
          body = Some [''{\"error\":\"Rate limit exceeded. Please try again later.\"}'']\<rparr>,
         \<lparr>fetched = [call], logged = []\<rparr>)
      else if status r = 402 then
        (\<lparr>status = 402, headers = corsHeaders @ [(''Content-Type'', ''application/json'')],
          body = Some [''{\"error\":\"Payment required. Please add credits to continue.\"}'']\<rparr>,
         \<lparr>fetched = [call], logged = []\<rparr>)
      else if status r < 200 \<or> 299 < status r then
        (\<lparr>status = 500, headers = corsHeaders @ [(''Content-Type'', ''application/json'')],
          body = Some [''{\"error\":\"AI service error\"}'']\<rparr>,
         \<lparr>fetched = [call],
          logged = [[''AI gateway error:'', show_nat (status r),
                     (case body r of None \<Rightarrow> [] | Some chunks \<Rightarrow> concat chunks)]]\<rparr>)
      else
        (\<lparr>status = 200, headers = corsHeaders @ [(''Content-Type'', ''text/event-stream'')],
          body = body r\<rparr>,
         \<lparr>fetched = [call], logged = []\<rparr>))"
proof -
  from assms(3) have "parsed \<noteq> JNull" by auto
  then show ?thesis
    using assms
    by (cases parsed)
       (simp_all add: serve_def ask_ai_def ok_def error_response_def Let_def
          stringify_rate_limit stringify_payment stringify_service)
qed

theorem serve_upstream_status_witness:
  "fst (serve sample_platform
          (sample_deno \<lparr>status = 429, headers = [], body = Some [''slow down'']\<rparr>)
          (post (JObject [(''question'', JString ''What is entropy?'')]))) =
     \<lparr>status = 429, headers = corsHeaders @ [(''Content-Type'', ''application/json'')],
      body = Some [''{\"error\":\"Rate limit exceeded. Please try again later.\"}'']\<rparr> \<and>
   fst (serve sample_platform
          (sample_deno \<lparr>status = 402, headers = [], body = Some [''pay'']\<rparr>)
          (post (JObject [(''question'', JString ''What is entropy?'')]))) =
     \<lparr>status = 402, headers = corsHeaders @ [(''Content-Type'', ''application/json'')],
      body = Some [''{\"error\":\"Payment required. Please add credits to continue.\"}'']\<rparr> \<and>
   fst (serve sample_platform
          (sample_deno \<lparr>status = 503, headers = [], body = Some [''over'', ''loaded'']\<rparr>)
          (post (JObject [(''question'', JString ''What is entropy?'')]))) =
     \<lparr>status = 500, headers = corsHeaders @ [(''Content-Type'', ''application/json'')],
      body = Some [''{\"error\":\"AI service error\"}'']\<rparr> \<and>
   logged (snd (serve sample_platform
          (sample_deno \<lparr>status = 503, headers = [], body = Some [''over'', ''loaded'']\<rparr>)
          (post (JObject [(''question'', JString ''What is entropy?'')])))) =
     [[''AI gateway error:'', ''503'', ''overloaded'']] \<and>
   fst (serve sample_platform
          (sample_deno \<lparr>status = 200, headers = [], body = Some [delta_line ''Hi'']\<rparr>)
          (post (JObject [(''question'', JString ''What is entropy?'')]))) =
     \<lparr>status = 200, headers = corsHeaders @ [(''Content-Type'', ''text/event-stream'')],
      body = Some [delta_line ''Hi'']\<rparr>"
proof -
  let ?body = "JObject [(''question'', JString ''What is entropy?'')] :: string json"
  let ?sb = "\<lparr>syllabus = (\<lambda>u. Some []), past_papers = (\<lambda>u. Some [])\<rparr> :: string supabase"
  have n503: "show_nat 503 = ''503''"
    by code_simp
  have inst: "serve sample_platform (sample_deno r) (post ?body) =
     (if status r = 429 then
        (\<lparr>status = 429, headers = corsHeaders @ [(''Content-Type'', ''application/json'')],
          body = Some [''{\"error\":\"Rate limit exceeded. Please try again later.\"}'']\<rparr>,
         \<lparr>fetched = [completion_call sample_platform ?sb ''key''
                       (JString ''What is entropy?'') (member ?body ''userId'')],
          logged = []\<rparr>)
      else if status r = 402 then
        (\<lparr>status = 402, headers = corsHeaders @ [(''Content-Type'', ''application/json'')],
          body = Some [''{\"error\":\"Payment required. Please add credits to continue.\"}'']\<rparr>,
         \<lparr>fetched = [completion_call sample_platform ?sb ''key''
                       (JString ''What is entropy?'') (member ?body ''userId'')],
          logged = []\<rparr>)
      else if status r < 200 \<or> 299 < status r then
        (\<lparr>status = 500, headers = corsHeaders @ [(''Content-Type'', ''application/json'')],
          body = Some [''{\"error\":\"AI service error\"}'']\<rparr>,
         \<lparr>fetched = [completion_call sample_platform ?sb ''key''
                       (JString ''What is entropy?'') (member ?body ''userId'')],
          logged = [[''AI gateway error:'', show_nat (status r),
                     (case body r of None \<Rightarrow> [] | Some chunks \<Rightarrow> concat chunks)]]\<rparr>)
      else
        (\<lparr>status = 200, headers = corsHeaders @ [(''Content-Type'', ''text/event-stream'')],
          body = body r\<rparr>,
         \<lparr>fetched = [completion_call sample_platform ?sb ''key''
                       (JString ''What is entropy?'') (member ?body ''userId'')],
          logged = []\<rparr>))" for r
    by (rule serve_upstream_status[where parsed = ?body and k = "''key''" and sb = ?sb])
       (simp_all add: post_def sample_deno_def)
  show ?thesis
    by (simp add: inst n503 del: show_nat.simps)
qed

text \<open>
  C10. Every response of the relay (preflight, validation error, translated
  upstream error, internal exception, streamed answer) carries the two
  cross-origin headers: \<^verbatim>\<open>Access-Control-Allow-Origin: *\<close> and the list of allowed
  headers.
\<close>

theorem serve_cors_headers:
  "map_of (headers (fst (serve P D req))) ''Access-Control-Allow-Origin'' = Some ''*'' \<and>
   map_of (headers (fst (serve P D req))) ''Access-Control-Allow-Headers'' =
     Some ''authorization, x-client-info, apikey, content-type''"
  by (auto simp: serve_def ask_ai_def corsHeaders_def error_response_def Let_def
      split: sum.splits json.splits option.splits prod.splits if_splits)

end
